theory Spec2Isabelle
  imports Complex_Main
begin

section \<open>Numbers\<close>

text \<open>
  The TypeScript \<open>number\<close>s of the engine (stakes, pools, scores, latencies) are
  modelled by exact real numbers.  \<open>Math.round\<close> rounds half up: for every finite
  \<open>x\<close> it is the floor of \<open>x + 1/2\<close>.  A quotient is only taken as
  JavaScript's where the divisor is not zero; every theorem below that depends on
  a quotient says so in a hypothesis.
\<close>

type_synonym number = real

definition Math_round :: "number \<Rightarrow> number" where
  "Math_round x = of_int \<lfloor>x + 1 / 2\<rfloor>"

definition r1 :: "number \<Rightarrow> number" where
  "r1 n = Math_round (n * 10) / 10"

definition r3 :: "number \<Rightarrow> number" where
  "r3 n = Math_round (n * 1000) / 1000"

definition r4 :: "number \<Rightarrow> number" where
  "r4 n = Math_round (n * 10000) / 10000"

section \<open>Shared domain types (\<open>packages/shared/src/types.ts\<close>)\<close>

datatype AgentId = Safe | Fast | Cheap

datatype JobStatus = Fulfilled | Failed

record PaperBet =
  pb_id :: string
  pb_battleId :: string
  pb_nickname :: string
  pb_agentId :: AgentId
  pb_amountEth :: number
  pb_placedAt :: int

record PaperBetResult =
  pr_betId :: string
  pr_battleId :: string
  pr_nickname :: string
  pr_agentId :: AgentId
  pr_amountEth :: number
  pr_pnlEth :: number
  pr_roiPct :: number
  pr_won :: bool

section \<open>Paper betting (\<open>apps/api/src/lib/paperBets.ts\<close>)\<close>

record NicknameStats =
  ns_nickname :: string
  ns_totalPnl :: number
  ns_totalBets :: nat
  ns_wins :: nat
  ns_totalWagered :: number
  ns_biggestWin :: number
  ns_biggestLoss :: number
  ns_currentStreak :: int

text \<open>
  The events of the lifecycle stream that the betting module emits.  The event id
  and its timestamp (a fresh UUID and the clock) are left out.
\<close>

datatype PaperEvent =
    Paperbet_placed string string string AgentId number
  | Participation_update string string AgentId number int
  | Paperbet_resolved string AgentId number "(string \<times> AgentId \<times> number \<times> number \<times> bool) list"

text \<open>
  The module state: the two arrays \<open>paperBets\<close> and \<open>paperResults\<close>, the
  \<open>nicknameStats\<close> map and the events emitted so far.
\<close>

record PaperState =
  paperBets :: "PaperBet list"
  paperResults :: "PaperBetResult list"
  nicknameStats :: "string \<rightharpoonup> NicknameStats"
  paperEvents :: "PaperEvent list"

definition emptyPaperState :: PaperState where
  "emptyPaperState =
     \<lparr>paperBets = [], paperResults = [], nicknameStats = Map.empty, paperEvents = []\<rparr>"

definition getOrCreate :: "(string \<rightharpoonup> NicknameStats) \<Rightarrow> string \<Rightarrow> NicknameStats" where
  "getOrCreate m nick =
     (case m nick of
        Some st \<Rightarrow> st
      | None \<Rightarrow> \<lparr>ns_nickname = nick, ns_totalPnl = 0, ns_totalBets = 0, ns_wins = 0,
                 ns_totalWagered = 0, ns_biggestWin = 0, ns_biggestLoss = 0,
                 ns_currentStreak = 0\<rparr>)"

text \<open>\<open>placeBet\<close>: the bet id and the clock reading are arguments.\<close>

definition placeBet ::
  "string \<Rightarrow> int \<Rightarrow> string \<Rightarrow> string \<Rightarrow> AgentId \<Rightarrow> number \<Rightarrow> PaperState \<Rightarrow> PaperBet \<times> PaperState" where
  "placeBet uuid now battleId nickname agentId amountEth s =
     (let bet = \<lparr>pb_id = uuid, pb_battleId = battleId, pb_nickname = nickname,
                  pb_agentId = agentId, pb_amountEth = amountEth, pb_placedAt = now\<rparr>
      in (bet, s\<lparr>paperBets := paperBets s @ [bet],
                 paperEvents := paperEvents s @
                   [Paperbet_placed uuid battleId nickname agentId amountEth,
                    Participation_update battleId nickname agentId amountEth now]\<rparr>))"

definition getBetsForBattle :: "PaperState \<Rightarrow> string \<Rightarrow> PaperBet list" where
  "getBetsForBattle s battleId = filter (\<lambda>b. pb_battleId b = battleId) (paperBets s)"

definition getResultsForBattle :: "PaperState \<Rightarrow> string \<Rightarrow> PaperBetResult list" where
  "getResultsForBattle s battleId = filter (\<lambda>r. pr_battleId r = battleId) (paperResults s)"

text \<open>\<open>bets.reduce((s, b) => s + b.amountEth, 0)\<close>\<close>

definition poolOf :: "PaperBet list \<Rightarrow> number" where
  "poolOf bets = foldl (\<lambda>s b. s + pb_amountEth b) 0 bets"

text \<open>The body of the \<open>bets.map\<close> callback of \<open>resolvePaperBets\<close>.\<close>

definition betResult :: "string \<Rightarrow> AgentId \<Rightarrow> number \<Rightarrow> number \<Rightarrow> PaperBet \<Rightarrow> PaperBetResult" where
  "betResult battleId winnerAgentId winnersPool losersPool bet =
     (let won = (pb_agentId bet = winnerAgentId);
          pnlEth = (if won \<and> winnersPool > 0
                    then (let share = pb_amountEth bet / winnersPool;
                              gain = share * losersPool
                          in r4 gain)
                    else - pb_amountEth bet);
          roiPct = r1 ((pnlEth / pb_amountEth bet) * 100)
      in \<lparr>pr_betId = pb_id bet, pr_battleId = battleId, pr_nickname = pb_nickname bet,
          pr_agentId = pb_agentId bet, pr_amountEth = pb_amountEth bet,
          pr_pnlEth = pnlEth, pr_roiPct = roiPct, pr_won = won\<rparr>)"

text \<open>One turn of the \<open>for (const res of results)\<close> loop that updates the aggregates.\<close>

definition updateStats ::
  "(string \<rightharpoonup> NicknameStats) \<Rightarrow> PaperBetResult \<Rightarrow> (string \<rightharpoonup> NicknameStats)" where
  "updateStats m res =
     (let st0 = getOrCreate m (pr_nickname res);
          st1 = st0\<lparr>ns_totalPnl := r4 (ns_totalPnl st0 + pr_pnlEth res),
                    ns_totalBets := ns_totalBets st0 + 1,
                    ns_totalWagered := r3 (ns_totalWagered st0 + pr_amountEth res)\<rparr>;
          st2 = (if pr_won res
                 then st1\<lparr>ns_wins := ns_wins st1 + 1,
                          ns_biggestWin :=
                            (if pr_pnlEth res > ns_biggestWin st1 then pr_pnlEth res
                             else ns_biggestWin st1),
                          ns_currentStreak :=
                            (if ns_currentStreak st1 \<ge> 0 then ns_currentStreak st1 + 1 else 1)\<rparr>
                 else (let loss = \<bar>pr_pnlEth res\<bar>
                       in st1\<lparr>ns_biggestLoss :=
                                 (if loss > ns_biggestLoss st1 then loss else ns_biggestLoss st1),
                               ns_currentStreak :=
                                 (if ns_currentStreak st1 \<le> 0 then ns_currentStreak st1 - 1
                                  else - 1)\<rparr>))
      in m(pr_nickname res \<mapsto> st2))"

definition resolvePaperBets ::
  "string \<Rightarrow> AgentId \<Rightarrow> PaperState \<Rightarrow> PaperBetResult list \<times> PaperState" where
  "resolvePaperBets battleId winnerAgentId s =
     (let existing = getResultsForBattle s battleId in
      if length existing > 0 then (existing, s)
      else
        (let bets = getBetsForBattle s battleId in
         if length bets = 0 then ([], s)
         else
           (let totalPool = poolOf bets;
                winnerBets = filter (\<lambda>b. pb_agentId b = winnerAgentId) bets;
                winnersPool = poolOf winnerBets;
                losersPool = totalPool - winnersPool;
                results = map (betResult battleId winnerAgentId winnersPool losersPool) bets
            in (results,
                s\<lparr>paperResults := paperResults s @ results,
                  nicknameStats := foldl updateStats (nicknameStats s) results,
                  paperEvents := paperEvents s @
                    [Paperbet_resolved battleId winnerAgentId totalPool
                       (map (\<lambda>r. (pr_nickname r, pr_agentId r, pr_pnlEth r, pr_roiPct r, pr_won r))
                          results)]\<rparr>))))"

text \<open>The sum of the profit-and-loss values of a list of results.\<close>

definition sumPnl :: "PaperBetResult list \<Rightarrow> number" where
  "sumPnl rs = sum_list (map pr_pnlEth rs)"



text \<open>Concrete stores, built with \<open>placeBet\<close> from the empty store.\<close>

definition oneLoserState :: PaperState where
  "oneLoserState = snd (placeBet ''u1'' 1 ''b1'' ''ann'' Safe 1 emptyPaperState)"

definition thirdsState :: PaperState where
  "thirdsState =
     snd (placeBet ''u4'' 4 ''b2'' ''dan'' Fast 1
       (snd (placeBet ''u3'' 3 ''b2'' ''cat'' Safe 1
         (snd (placeBet ''u2'' 2 ''b2'' ''bob'' Safe 1
           (snd (placeBet ''u1'' 1 ''b2'' ''ann'' Safe 1 emptyPaperState)))))))"

definition specExampleState :: PaperState where
  "specExampleState =
     snd (placeBet ''u3'' 3 ''b3'' ''cat'' Cheap (3 / 100)
       (snd (placeBet ''u2'' 2 ''b3'' ''bob'' Fast (2 / 100)
         (snd (placeBet ''u1'' 1 ''b3'' ''ann'' Safe (1 / 100) emptyPaperState)))))"

section \<open>Strings and request values\<close>

text \<open>
  Strings are lists of 8-bit characters; \<open>toLowerCase\<close> and \<open>trim\<close> are JavaScript's on
  ASCII text (transaction hashes, nicknames, identifiers).
\<close>

definition lowerChar :: "char \<Rightarrow> char" where
  "lowerChar c =
     (case map_of (zip ''ABCDEFGHIJKLMNOPQRSTUVWXYZ'' ''abcdefghijklmnopqrstuvwxyz'') c of
        Some d \<Rightarrow> d
      | None \<Rightarrow> c)"

definition toLowerCase :: "string \<Rightarrow> string" where
  "toLowerCase s = map lowerChar s"

definition isWhiteSpace :: "char \<Rightarrow> bool" where
  "isWhiteSpace c = (c \<in> set [CHR 0x09, CHR 0x0A, CHR 0x0B, CHR 0x0C, CHR 0x0D, CHR 0x20])"

definition trim :: "string \<Rightarrow> string" where
  "trim s = rev (dropWhile isWhiteSpace (rev (dropWhile isWhiteSpace s)))"

text \<open>
  A value of a parsed JSON request body, as far as the handlers look at it.
  \<open>JUndefined\<close> is an absent field; \<open>JObject\<close> is any object that is not an array.
\<close>

datatype jsvalue =
    JUndefined
  | JNull
  | JBool bool
  | JNumber number
  | JString string
  | JArray "jsvalue list"
  | JObject

text \<open>
  \<open>Number(v)\<close>.  The result \<open>None\<close> stands for a value that is not finite (\<open>NaN\<close>,
  \<open>Infinity\<close>, \<open>-Infinity\<close>).  The conversion of strings, arrays and objects (the
  numeric-string grammar) is the parameter \<open>parse\<close>.
\<close>

definition Number :: "(jsvalue \<Rightarrow> number option) \<Rightarrow> jsvalue \<Rightarrow> number option" where
  "Number parse v =
     (case v of
        JUndefined \<Rightarrow> None
      | JNull \<Rightarrow> Some 0
      | JBool b \<Rightarrow> Some (if b then 1 else 0)
      | JNumber x \<Rightarrow> Some x
      | _ \<Rightarrow> parse v)"

text \<open>\<open>VALID_AGENTS.includes(v)\<close>, with the agent the value names.\<close>

definition agentOfString :: "string \<Rightarrow> AgentId option" where
  "agentOfString s =
     (if s = ''safe'' then Some Safe
      else if s = ''fast'' then Some Fast
      else if s = ''cheap'' then Some Cheap
      else None)"

definition validAgent :: "jsvalue \<Rightarrow> AgentId option" where
  "validAgent v = (case v of JString s \<Rightarrow> agentOfString s | _ \<Rightarrow> None)"

section \<open>The placement endpoint (\<open>POST /paperbets/place\<close>)\<close>

definition MIN_BET :: number where
  "MIN_BET = 1 / 1000"

definition MAX_BET :: number where
  "MAX_BET = 10"

record PlaceBody =
  pl_battleId :: jsvalue
  pl_nickname :: jsvalue
  pl_agentId :: jsvalue
  pl_amountEth :: jsvalue

text \<open>
  The handler returns the HTTP status and the state it leaves.  The fresh bet id and the
  clock reading that \<open>placeBet\<close> draws are arguments.
\<close>

definition postPlace ::
  "(jsvalue \<Rightarrow> number option) \<Rightarrow> string \<Rightarrow> int \<Rightarrow> PlaceBody \<Rightarrow> PaperState \<Rightarrow> nat \<times> PaperState" where
  "postPlace parse uuid now body s =
     (case pl_battleId body of
        JString battleId \<Rightarrow>
          if battleId = [] then (400, s)
          else
            (case pl_nickname body of
               JString nickname \<Rightarrow>
                 if trim nickname = [] \<or> length nickname > 40 then (400, s)
                 else
                   (case validAgent (pl_agentId body) of
                      None \<Rightarrow> (400, s)
                    | Some agentId \<Rightarrow>
                        (case Number parse (pl_amountEth body) of
                           None \<Rightarrow> (400, s)
                         | Some amount \<Rightarrow>
                             if amount < MIN_BET \<or> amount > MAX_BET then (400, s)
                             else
                               (case find (\<lambda>b. toLowerCase (pb_nickname b) =
                                                 toLowerCase (trim nickname))
                                       (getBetsForBattle s battleId) of
                                  Some existing \<Rightarrow> (409, s)
                                | None \<Rightarrow>
                                    (201, snd (placeBet uuid now battleId (trim nickname)
                                                 agentId amount s)))))
             | _ \<Rightarrow> (400, s))
      | _ \<Rightarrow> (400, s))"

text \<open>
  A run of the endpoint: the requests served one after the other, each with its own
  fresh id and clock reading, from a given state.
\<close>

fun servePlaces ::
  "(jsvalue \<Rightarrow> number option) \<Rightarrow> (string \<times> int \<times> PlaceBody) list \<Rightarrow> PaperState \<Rightarrow> PaperState" where
  "servePlaces parse [] s = s"
| "servePlaces parse ((uuid, now, body) # reqs) s =
     servePlaces parse reqs (snd (postPlace parse uuid now body s))"

definition stakeInRange :: "PaperBet \<Rightarrow> bool" where
  "stakeInRange b = (MIN_BET \<le> pb_amountEth b \<and> pb_amountEth b \<le> MAX_BET)"

text \<open>Concrete requests: a stake of 0.5, a stake of 0.0005, a stake of 10.5, a stake that is no number.\<close>

definition noParse :: "jsvalue \<Rightarrow> number option" where
  "noParse v = None"

definition placeRequest :: "jsvalue \<Rightarrow> PlaceBody" where
  "placeRequest amount =
     \<lparr>pl_battleId = JString ''b1'', pl_nickname = JString '' Ann '',
      pl_agentId = JString ''fast'', pl_amountEth = amount\<rparr>"

section \<open>Receipts, battles, stream events (\<open>types.ts\<close>, \<open>apps/api/src/store.ts\<close>)\<close>

datatype JobType = Swap | Paid_call

datatype Objective = Safest | Fastest | Cheapest

datatype ExecutionMode = Sim | Quote | Real

record SwapParams =
  sp_inputToken :: string
  sp_outputToken :: string
  sp_amountIn :: string
  sp_chainId :: number

record SwapQuote =
  sq_quotedOut :: string
  sq_routeSummary :: string
  sq_rawQuote :: string

record SwapTxRequest =
  tx_to :: string
  tx_data :: string
  tx_value :: string
  tx_chainId :: number
  tx_gas :: "string option"

record JobConstraints =
  jc_jobType :: JobType
  jc_objective :: Objective
  jc_maxSlippageBps :: number
  jc_maxGasUsd :: number
  jc_deadlineMs :: number

record OutcomeMetrics =
  om_status :: JobStatus
  om_latencyMs :: number
  om_gasUsedUsd :: number
  om_slippageBps :: number
  om_safetyFlags :: "string list"

datatype EvmStatus = Success | Reverted

datatype Verifier = Quicknode

record OnChainEvidence =
  oc_txHash :: string
  oc_blockNumber :: number
  oc_chainId :: number
  oc_gasUsed :: string
  oc_status :: EvmStatus
  oc_verifiedBy :: "Verifier option"
  oc_confirmedAt :: "int option"

text \<open>The rating of a user's feedback has the type \<open>1 | 2 | 3 | 4 | 5\<close>.\<close>

datatype Rating = Rating1 | Rating2 | Rating3 | Rating4 | Rating5


record UserFeedback =
  uf_rating :: Rating
  uf_comment :: "string option"

record AgentPolicy =
  ap_slippageBps :: number
  ap_maxHops :: "number option"
  ap_preference :: Objective

record AgentEconomics =
  ae_quotedOut :: "string option"
  ae_gasEstimate :: "string option"
  ae_hopCount :: "number option"

record Receipt =
  rc_jobId :: string
  rc_agentId :: AgentId
  rc_submittedAt :: int
  rc_completedAt :: int
  rc_constraints :: JobConstraints
  rc_outcome :: OutcomeMetrics
  rc_swapParams :: "SwapParams option"
  rc_quoteResult :: "SwapQuote option"
  rc_swapTxRequest :: "SwapTxRequest option"
  rc_onChain :: "OnChainEvidence option"
  rc_userFeedback :: "UserFeedback option"
  rc_battleId :: "string option"
  rc_policy :: "AgentPolicy option"
  rc_economics :: "AgentEconomics option"

datatype BattleType = Speed | Gas | Reliability | Slippage

datatype BattleStatus = Lobby | Running | Complete

datatype CardStatus = CardPending | CardRunning | CardFulfilled | CardFailed

record BattleScorecard =
  sc_agentId :: AgentId
  sc_jobId :: "string option"
  sc_status :: CardStatus
  sc_latencyMs :: "number option"
  sc_gasUsedUsd :: "number option"
  sc_slippageBps :: "number option"
  sc_quotedOut :: "string option"
  sc_verifiedByStream :: "bool option"

record BattleRecord =
  br_battleId :: string
  br_createdAt :: int
  br_battleType :: BattleType
  br_agentIds :: "AgentId list"
  br_scorecards :: "BattleScorecard list"
  br_status :: BattleStatus
  br_winnerAgentId :: "AgentId option"
  br_resolveTxHash :: "string option"

datatype StreamSource = SrcQuicknode | SrcDev

record StreamEvent =
  se_id :: string
  se_txHash :: string
  se_blockNumber :: number
  se_gasUsed :: string
  se_status :: string
  se_from :: string
  se_to :: string
  se_contract :: string
  se_topic :: string
  se_timestamp :: number
  se_matchedJobId :: "string option"
  se_source :: "StreamSource option"

text \<open>
  The lifecycle events of the job pipeline and of the stream ingestion.  Of the
  free-form payload the model keeps the job id, the agent, the stage label
  (\<open>phase\<close>) of a failure and the transaction hash; the event id and the timestamp are
  left out.
\<close>

datatype SSEType =
    Ev_queued | Ev_running | Ev_fulfilled | Ev_failed | Ev_tx_submitted | Ev_tx_confirmed
  | Ev_stream_event | Ev_battle_complete | Ev_battle_open

record SSEEvent =
  ev_type :: SSEType
  ev_subject :: string
  ev_agentId :: "AgentId option"
  ev_phase :: "string option"
  ev_txHash :: "string option"

text \<open>The module state of \<open>store.ts\<close>: its arrays and the current battle id.\<close>

record Store =
  receipts :: "Receipt list"
  events :: "SSEEvent list"
  streamEvents :: "StreamEvent list"
  battles :: "BattleRecord list"
  currentBattleId :: "string option"

definition emptyStore :: Store where
  "emptyStore = \<lparr>receipts = [], events = [], streamEvents = [], battles = [],
                  currentBattleId = None\<rparr>"

definition MAX_STREAM_EVENTS :: nat where
  "MAX_STREAM_EVENTS = 5000"

definition MAX_BATTLES :: nat where
  "MAX_BATTLES = 100"

definition emitEvent :: "SSEEvent \<Rightarrow> Store \<Rightarrow> Store" where
  "emitEvent e s = s\<lparr>events := events s @ [e]\<rparr>"

definition addReceipt :: "Receipt \<Rightarrow> Store \<Rightarrow> Store" where
  "addReceipt receipt s = s\<lparr>receipts := receipts s @ [receipt]\<rparr>"


text \<open>\<open>xs.splice(0, n)\<close> removes the first \<open>n\<close> elements.\<close>

definition addBattle :: "BattleRecord \<Rightarrow> Store \<Rightarrow> Store" where
  "addBattle battle s =
     (let bs = battles s @ [battle]
      in s\<lparr>battles := (if length bs > MAX_BATTLES
                         then drop (length bs - MAX_BATTLES) bs else bs)\<rparr>)"


text \<open>
  The records are objects that the store's arrays share with their readers; a patch of
  the first element that satisfies a test is a patch of that object in the array.
\<close>

fun patchFirst :: "('a \<Rightarrow> bool) \<Rightarrow> ('a \<Rightarrow> 'a) \<Rightarrow> 'a list \<Rightarrow> 'a list" where
  "patchFirst P f [] = []"
| "patchFirst P f (x # xs) = (if P x then f x # xs else x # patchFirst P f xs)"

text \<open>
  \<open>updateBattleScorecard\<close>: the patch is given by its effect \<open>Object.assign(card, patch)\<close>
  on a scorecard.
\<close>

definition updateBattleScorecard ::
  "string \<Rightarrow> AgentId \<Rightarrow> (BattleScorecard \<Rightarrow> BattleScorecard) \<Rightarrow> Store \<Rightarrow> Store" where
  "updateBattleScorecard battleId agentId patch s =
     s\<lparr>battles :=
         patchFirst (\<lambda>b. br_battleId b = battleId)
           (\<lambda>b. b\<lparr>br_scorecards :=
                    patchFirst (\<lambda>c. sc_agentId c = agentId) patch (br_scorecards b)\<rparr>)
           (battles s)\<rparr>"

definition startBattle :: "string \<Rightarrow> Store \<Rightarrow> Store" where
  "startBattle battleId s =
     s\<lparr>battles := patchFirst (\<lambda>b. br_battleId b = battleId)
                     (\<lambda>b. b\<lparr>br_status := Running\<rparr>) (battles s)\<rparr>"

definition finalizeBattle :: "string \<Rightarrow> AgentId option \<Rightarrow> Store \<Rightarrow> Store" where
  "finalizeBattle battleId winnerAgentId s =
     s\<lparr>battles := patchFirst (\<lambda>b. br_battleId b = battleId)
                     (\<lambda>b. b\<lparr>br_status := Complete, br_winnerAgentId := winnerAgentId\<rparr>)
                     (battles s)\<rparr>"

definition addStreamEvent :: "StreamEvent \<Rightarrow> Store \<Rightarrow> Store" where
  "addStreamEvent event s =
     (let es = streamEvents s @ [event]
      in s\<lparr>streamEvents := (if length es > MAX_STREAM_EVENTS
                              then drop (length es - MAX_STREAM_EVENTS) es else es)\<rparr>)"

text \<open>
  \<open>findReceiptByTxHash\<close> returns the receipt object; the model returns its position in
  \<open>receipts\<close>, the first one that satisfies the test.
\<close>

definition txHashMatches :: "string \<Rightarrow> Receipt \<Rightarrow> bool" where
  "txHashMatches txHash r =
     (case rc_onChain r of
        None \<Rightarrow> False
      | Some oc \<Rightarrow> toLowerCase (oc_txHash oc) = toLowerCase txHash)"

fun findIndex :: "('a \<Rightarrow> bool) \<Rightarrow> 'a list \<Rightarrow> nat option" where
  "findIndex P [] = None"
| "findIndex P (x # xs) = (if P x then Some 0 else map_option Suc (findIndex P xs))"

definition findReceiptByTxHash :: "Store \<Rightarrow> string \<Rightarrow> nat option" where
  "findReceiptByTxHash s txHash = findIndex (txHashMatches txHash) (receipts s)"

text \<open>
  \<open>applyStreamConfirmation\<close>, on the receipt at position \<open>i\<close>; \<open>now\<close> is the clock
  reading.  A battle id that is the empty string is falsy.
\<close>

definition confirmReceipt :: "string \<Rightarrow> string \<Rightarrow> int \<Rightarrow> Receipt \<Rightarrow> Receipt" where
  "confirmReceipt gasUsed evmStatus now receipt =
     receipt\<lparr>rc_onChain :=
               (case rc_onChain receipt of
                  None \<Rightarrow> None
                | Some oc \<Rightarrow>
                    Some (oc\<lparr>oc_gasUsed := gasUsed,
                             oc_status := (if evmStatus = ''success'' then Success else Reverted),
                             oc_verifiedBy := Some Quicknode,
                             oc_confirmedAt := Some now\<rparr>)),
             rc_outcome :=
               (rc_outcome receipt)\<lparr>om_status :=
                  (if evmStatus = ''success'' then Fulfilled else Failed)\<rparr>\<rparr>"

definition applyStreamConfirmation :: "nat \<Rightarrow> string \<Rightarrow> string \<Rightarrow> int \<Rightarrow> Store \<Rightarrow> Store" where
  "applyStreamConfirmation i gasUsed evmStatus now s =
     (let receipt = confirmReceipt gasUsed evmStatus now (receipts s ! i);
          s1 = s\<lparr>receipts := (receipts s)[i := receipt]\<rparr>
      in (case rc_battleId receipt of
            None \<Rightarrow> s1
          | Some battleId \<Rightarrow>
              if battleId = [] then s1
              else updateBattleScorecard battleId (rc_agentId receipt)
                     (\<lambda>c. c\<lparr>sc_verifiedByStream := Some True\<rparr>) s1))"

text \<open>
  The body of the webhook's loop for one swap entry with a non-empty transaction hash
  (\<open>POST /webhooks/quicknode\<close>): reconcile, store the normalised event, broadcast it.
\<close>

record RawSwap =
  rs_txHash :: string
  rs_logIndex :: string
  rs_blockNumber :: number
  rs_gasUsed :: string
  rs_status :: string
  rs_from :: string
  rs_to :: string
  rs_contract :: string
  rs_topic :: string
  rs_timestamp :: number

definition ingestSwap :: "int \<Rightarrow> RawSwap \<Rightarrow> Store \<Rightarrow> Store" where
  "ingestSwap now raw s =
     (let found = findReceiptByTxHash s (rs_txHash raw);
          s1 = (case found of
                  None \<Rightarrow> s
                | Some i \<Rightarrow> applyStreamConfirmation i (rs_gasUsed raw) (rs_status raw) now s);
          matched = map_option (\<lambda>i. rc_jobId (receipts s ! i)) found;
          normalized =
            \<lparr>se_id = rs_txHash raw @ rs_logIndex raw, se_txHash = rs_txHash raw,
             se_blockNumber = rs_blockNumber raw, se_gasUsed = rs_gasUsed raw,
             se_status = rs_status raw, se_from = rs_from raw, se_to = rs_to raw,
             se_contract = rs_contract raw, se_topic = rs_topic raw,
             se_timestamp = rs_timestamp raw, se_matchedJobId = matched,
             se_source = Some SrcQuicknode\<rparr>
      in emitEvent \<lparr>ev_type = Ev_stream_event, ev_subject = se_id normalized,
                     ev_agentId = None, ev_phase = None, ev_txHash = Some (rs_txHash raw)\<rparr>
           (addStreamEvent normalized s1))"

text \<open>
  A concrete store: one fulfilled receipt of the agent \<open>fast\<close> that carries on-chain
  evidence for the transaction \<open>0xAB12\<close> and belongs to the battle \<open>b1\<close>, and that
  battle with the scorecards of \<open>safe\<close> and \<open>fast\<close>.
\<close>

definition exampleReceipt :: Receipt where
  "exampleReceipt =
     \<lparr>rc_jobId = ''j1'', rc_agentId = Fast, rc_submittedAt = 1000, rc_completedAt = 1300,
      rc_constraints = \<lparr>jc_jobType = Swap, jc_objective = Fastest, jc_maxSlippageBps = 150,
                         jc_maxGasUsd = 2, jc_deadlineMs = 800\<rparr>,
      rc_outcome = \<lparr>om_status = Fulfilled, om_latencyMs = 300, om_gasUsedUsd = 3 / 4,
                     om_slippageBps = 150, om_safetyFlags = []\<rparr>,
      rc_swapParams = None, rc_quoteResult = None, rc_swapTxRequest = None,
      rc_onChain = Some \<lparr>oc_txHash = ''0xAB12'', oc_blockNumber = 7, oc_chainId = 84532,
                          oc_gasUsed = ''21000'', oc_status = Success,
                          oc_verifiedBy = None, oc_confirmedAt = None\<rparr>,
      rc_userFeedback = None, rc_battleId = Some ''b1'', rc_policy = None,
      rc_economics = None\<rparr>"

definition pendingCard :: "AgentId \<Rightarrow> BattleScorecard" where
  "pendingCard a =
     \<lparr>sc_agentId = a, sc_jobId = None, sc_status = CardPending, sc_latencyMs = None,
      sc_gasUsedUsd = None, sc_slippageBps = None, sc_quotedOut = None,
      sc_verifiedByStream = None\<rparr>"

definition exampleBattle :: BattleRecord where
  "exampleBattle =
     \<lparr>br_battleId = ''b1'', br_createdAt = 900, br_battleType = Speed,
      br_agentIds = [Safe, Fast], br_scorecards = [pendingCard Safe, pendingCard Fast],
      br_status = Running, br_winnerAgentId = None, br_resolveTxHash = None\<rparr>"

definition exampleStore :: Store where
  "exampleStore = emptyStore\<lparr>receipts := [exampleReceipt], battles := [exampleBattle]\<rparr>"

definition revertedSwap :: RawSwap where
  "revertedSwap =
     \<lparr>rs_txHash = ''0xab12'', rs_logIndex = ''0'', rs_blockNumber = 7, rs_gasUsed = ''30000'',
      rs_status = ''reverted'', rs_from = ''0x01'', rs_to = ''0x02'', rs_contract = ''0x03'',
      rs_topic = ''0x04'', rs_timestamp = 1700000000\<rparr>"

definition unknownSwap :: RawSwap where
  "unknownSwap = revertedSwap\<lparr>rs_txHash := ''0xffff''\<rparr>"

section \<open>Battle creation (\<open>POST /arena/battle\<close>, \<open>parseSwapParams\<close>)\<close>

definition BASE_SEPOLIA_CHAIN_ID :: number where
  "BASE_SEPOLIA_CHAIN_ID = 84532"

definition isHexDigit :: "char \<Rightarrow> bool" where
  "isHexDigit c = (c \<in> set ''0123456789abcdefABCDEF'')"

definition isDigit :: "char \<Rightarrow> bool" where
  "isDigit c = (c \<in> set ''0123456789'')"

text \<open>\<open>isAddress\<close>: a string that matches \<open>/^0x[0-9a-fA-F]{40}$/\<close>.\<close>

definition isAddress :: "jsvalue \<Rightarrow> bool" where
  "isAddress v =
     (case v of
        JString a \<Rightarrow> length a = 42 \<and> take 2 a = ''0x'' \<and> list_all isHexDigit (drop 2 a)
      | _ \<Rightarrow> False)"

record SwapBody =
  sb_inputToken :: jsvalue
  sb_outputToken :: jsvalue
  sb_amountIn :: jsvalue
  sb_chainId :: jsvalue

definition stringOf :: "jsvalue \<Rightarrow> string" where
  "stringOf v = (case v of JString a \<Rightarrow> a | _ \<Rightarrow> [])"

definition parseSwapParams :: "SwapBody \<Rightarrow> string + SwapParams" where
  "parseSwapParams body =
     (if \<not> isAddress (sb_inputToken body) then
        Inl ''inputToken must be a 0x-prefixed Ethereum address (42 hex chars)''
      else if \<not> isAddress (sb_outputToken body) then
        Inl ''outputToken must be a 0x-prefixed Ethereum address (42 hex chars)''
      else if (case sb_amountIn body of
                 JString a \<Rightarrow> \<not> (trim a \<noteq> [] \<and> list_all isDigit (trim a))
               | _ \<Rightarrow> True) then
        Inl ''amountIn must be a positive integer string''
      else if toLowerCase (stringOf (sb_inputToken body)) =
              toLowerCase (stringOf (sb_outputToken body)) then
        Inl ''inputToken and outputToken must differ''
      else
        Inr \<lparr>sp_inputToken = stringOf (sb_inputToken body),
             sp_outputToken = stringOf (sb_outputToken body),
             sp_amountIn = trim (stringOf (sb_amountIn body)),
             sp_chainId = (case sb_chainId body of
                             JNumber n \<Rightarrow> if n > 0 then n else BASE_SEPOLIA_CHAIN_ID
                           | _ \<Rightarrow> BASE_SEPOLIA_CHAIN_ID)\<rparr>)"

text \<open>\<open>VALID_TYPES.includes(v)\<close>, with the battle type the value names.\<close>

definition validType :: "jsvalue \<Rightarrow> BattleType option" where
  "validType v =
     (case v of
        JString t \<Rightarrow>
          if t = ''speed'' then Some Speed
          else if t = ''gas'' then Some Gas
          else if t = ''reliability'' then Some Reliability
          else if t = ''slippage'' then Some Slippage
          else None
      | _ \<Rightarrow> None)"

record BattleBody =
  bb_battleType :: jsvalue
  bb_agentIds :: jsvalue
  bb_swapParams :: "SwapBody option"

text \<open>
  The handler up to its response.  \<open>gate\<close> says that the payment gate \<open>checkX402\<close>
  refuses the request; \<open>uuid\<close> and \<open>now\<close> are the fresh battle id and the clock
  reading.  It returns the status, and after a 202 the battle it created runs on
  asynchronously.  In \<open>bb_swapParams\<close>, \<open>None\<close> is an absent (falsy) field.
\<close>

definition scorecardFor :: "AgentId \<Rightarrow> BattleScorecard" where
  "scorecardFor a =
     \<lparr>sc_agentId = a, sc_jobId = None, sc_status = CardPending, sc_latencyMs = None,
      sc_gasUsedUsd = None, sc_slippageBps = None, sc_quotedOut = None,
      sc_verifiedByStream = None\<rparr>"

definition postBattle :: "bool \<Rightarrow> string \<Rightarrow> int \<Rightarrow> BattleBody \<Rightarrow> Store \<Rightarrow> nat \<times> Store" where
  "postBattle gate uuid now body s =
     (if gate then (402, s)
      else
        (case validType (bb_battleType body) of
           None \<Rightarrow> (400, s)
         | Some type \<Rightarrow>
             (case bb_agentIds body of
                JArray rawIds \<Rightarrow>
                  if length rawIds < 2 \<or> length rawIds > 3 then (400, s)
                  else if \<exists>v \<in> set rawIds. validAgent v = None then (400, s)
                  else
                    (let ids = map (\<lambda>v. the (validAgent v)) rawIds in
                     if (case bb_swapParams body of
                           None \<Rightarrow> False
                         | Some rawSwap \<Rightarrow> isl (parseSwapParams rawSwap))
                     then (400, s)
                     else (202, addBattle
                                  \<lparr>br_battleId = uuid, br_createdAt = now, br_battleType = type,
                                   br_agentIds = ids, br_scorecards = map scorecardFor ids,
                                   br_status = Running, br_winnerAgentId = None,
                                   br_resolveTxHash = None\<rparr> s))
              | _ \<Rightarrow> (400, s))))"

text \<open>A request that names the agent \<open>safe\<close> twice.\<close>

definition duplicateBody :: BattleBody where
  "duplicateBody =
     \<lparr>bb_battleType = JString ''speed'', bb_agentIds = JArray [JString ''safe'', JString ''safe''],
      bb_swapParams = None\<rparr>"

definition threeAgentsBody :: BattleBody where
  "threeAgentsBody =
     \<lparr>bb_battleType = JString ''gas'',
      bb_agentIds = JArray [JString ''safe'', JString ''fast'', JString ''cheap''],
      bb_swapParams = None\<rparr>"

section \<open>Winner determination (\<open>determineWinner\<close> in \<open>routes/arena.ts\<close>)\<close>

text \<open>
  The value of a comparator \<open>(a.m ?? Infinity) - (b.m ?? Infinity)\<close>: a finite
  difference, an infinity, or \<open>NaN\<close> for \<open>Infinity - Infinity\<close>.
\<close>

datatype jsnum = Finite number | PosInfinity | NegInfinity | NaN



text \<open>
  \<open>Array.prototype.sort\<close> is a stable sort; it keeps \<open>a\<close> in front of a later \<open>b\<close>
  unless the comparator value \<open>v\<close> of \<open>(a, b)\<close> is positive, and it reads \<open>NaN\<close> as
  \<open>+0\<close>.  For a comparator that orders the elements consistently the sorted array
  is determined, and insertion from the right computes it.
\<close>

fun notAfter :: "jsnum \<Rightarrow> bool" where
  "notAfter (Finite d) = (d \<le> 0)"
| "notAfter NegInfinity = True"
| "notAfter PosInfinity = False"
| "notAfter NaN = True"

fun insertBy :: "('a \<Rightarrow> 'a \<Rightarrow> jsnum) \<Rightarrow> 'a \<Rightarrow> 'a list \<Rightarrow> 'a list" where
  "insertBy cmp x [] = [x]"
| "insertBy cmp x (y # ys) =
     (if notAfter (cmp x y) then x # y # ys else y # insertBy cmp x ys)"

definition jsSort :: "('a \<Rightarrow> 'a \<Rightarrow> jsnum) \<Rightarrow> 'a list \<Rightarrow> 'a list" where
  "jsSort cmp xs = foldr (insertBy cmp) xs []"






subsection \<open>The winner rule in the words of the specification\<close>








section \<open>The score model (\<open>packages/shared/src/scoring.ts\<close>)\<close>


















section \<open>The job pipeline (\<open>apps/api/src/agents.ts\<close>, \<open>apps/api/src/lib/runJob.ts\<close>)\<close>

definition AGENT_POLICY :: "AgentId \<Rightarrow> AgentPolicy" where
  "AGENT_POLICY a =
     (case a of
        Safe \<Rightarrow> \<lparr>ap_slippageBps = 50, ap_maxHops = Some 2, ap_preference = Safest\<rparr>
      | Fast \<Rightarrow> \<lparr>ap_slippageBps = 150, ap_maxHops = None, ap_preference = Fastest\<rparr>
      | Cheap \<Rightarrow> \<lparr>ap_slippageBps = 30, ap_maxHops = Some 4, ap_preference = Cheapest\<rparr>)"

definition defaultConstraints :: "JobType \<Rightarrow> AgentId \<Rightarrow> JobConstraints" where
  "defaultConstraints jobType a =
     (case a of
        Safe \<Rightarrow> \<lparr>jc_jobType = jobType, jc_objective = Safest, jc_maxSlippageBps = 50,
                  jc_maxGasUsd = 1, jc_deadlineMs = 3000\<rparr>
      | Fast \<Rightarrow> \<lparr>jc_jobType = jobType, jc_objective = Fastest, jc_maxSlippageBps = 150,
                  jc_maxGasUsd = 2, jc_deadlineMs = 800\<rparr>
      | Cheap \<Rightarrow> \<lparr>jc_jobType = jobType, jc_objective = Cheapest, jc_maxSlippageBps = 80,
                   jc_maxGasUsd = 1 / 2, jc_deadlineMs = 5000\<rparr>)"

text \<open>
  What \<open>runAgent\<close> draws: the fresh job id, the clock reading and the outcome it
  samples from the agent's profile (rounded latency, verdict, at most one safety flag,
  rounded gas, rounded slippage).
\<close>

record AgentDraw =
  dr_uuid :: string
  dr_now :: int
  dr_latencyMs :: int
  dr_status :: JobStatus
  dr_safetyFlags :: "string list"
  dr_gasUsedUsd :: number
  dr_slippageBps :: number

definition runAgent :: "AgentDraw \<Rightarrow> AgentId \<Rightarrow> JobType \<Rightarrow> Receipt" where
  "runAgent draw agentId jobType =
     \<lparr>rc_jobId = dr_uuid draw, rc_agentId = agentId,
      rc_submittedAt = dr_now draw - dr_latencyMs draw, rc_completedAt = dr_now draw,
      rc_constraints = defaultConstraints jobType agentId,
      rc_outcome = \<lparr>om_status = dr_status draw, om_latencyMs = of_int (dr_latencyMs draw),
                     om_gasUsedUsd = dr_gasUsedUsd draw, om_slippageBps = dr_slippageBps draw,
                     om_safetyFlags = dr_safetyFlags draw\<rparr>,
      rc_swapParams = None, rc_quoteResult = None, rc_swapTxRequest = None, rc_onChain = None,
      rc_userFeedback = None, rc_battleId = None, rc_policy = None, rc_economics = None\<rparr>"

record SwapQuoteWithMeta = SwapQuote +
  qm_hopCount :: number

record SendTxResult =
  st_txHash :: string
  st_blockNumber :: string
  st_chainId :: number
  st_gasUsed :: string
  st_status :: EvmStatus

text \<open>
  The three network collaborators of the pipeline: each either throws (\<open>Inl\<close> the
  error, as the string \<open>String(err)\<close>) or returns.
\<close>

record Collaborators =
  getSwapQuote :: "SwapParams \<Rightarrow> number \<Rightarrow> string + SwapQuoteWithMeta"
  buildSwapTx :: "SwapParams \<Rightarrow> string \<Rightarrow> string + SwapTxRequest"
  sendTx :: "SwapTxRequest \<Rightarrow> string + SendTxResult"

text \<open>The calls a run of the pipeline makes, in order.\<close>

datatype StageCall = CallGetSwapQuote | CallBuildSwapTx | CallSendTx | CallRunAgent

record RunJobParams =
  rp_jobId :: string
  rp_agentId :: AgentId
  rp_jobType :: JobType
  rp_swapParams :: "SwapParams option"
  rp_mode :: ExecutionMode
  rp_battleId :: "string option"

fun startsWith :: "string \<Rightarrow> string \<Rightarrow> bool" where
  "startsWith s [] = True"
| "startsWith [] (c # cs) = False"
| "startsWith (d # ds) (c # cs) = (d = c \<and> startsWith ds cs)"

text \<open>\<open>s.includes(t)\<close>\<close>

fun stringIncludes :: "string \<Rightarrow> string \<Rightarrow> bool" where
  "stringIncludes [] t = (t = [])"
| "stringIncludes (d # ds) t = (startsWith (d # ds) t \<or> stringIncludes ds t)"

text \<open>\<open>Number(s)\<close> for a string of decimal digits.\<close>

definition digitValue :: "char \<Rightarrow> number" where
  "digitValue c =
     (case map_of (zip ''0123456789'' [0, 1, 2, 3, 4, 5, 6, 7, 8, 9]) c of
        Some d \<Rightarrow> d
      | None \<Rightarrow> 0)"

definition decimalValue :: "string \<Rightarrow> number" where
  "decimalValue s = foldl (\<lambda>a c. 10 * a + digitValue c) 0 s"

definition jobEvent :: "SSEType \<Rightarrow> RunJobParams \<Rightarrow> string option \<Rightarrow> string option \<Rightarrow> SSEEvent" where
  "jobEvent t p phase txHash =
     \<lparr>ev_type = t, ev_subject = rp_jobId p, ev_agentId = Some (rp_agentId p),
      ev_phase = phase, ev_txHash = txHash\<rparr>"

text \<open>
  A stage that throws: its own \<open>catch\<close> emits \<open>failed\<close> with the stage label and
  rethrows, the outer \<open>catch\<close> emits \<open>failed\<close> once more and rethrows to the caller.
\<close>

definition abortJob ::
  "RunJobParams \<Rightarrow> string \<Rightarrow> string \<Rightarrow> StageCall list \<Rightarrow> Store \<Rightarrow>
   (string + Receipt) \<times> Store \<times> StageCall list" where
  "abortJob p phase err calls s =
     (Inl err,
      emitEvent (jobEvent Ev_failed p None None)
        (emitEvent (jobEvent Ev_failed p (Some phase) None) s),
      calls)"

text \<open>
  The simulate-outcome stage and what follows it: the receipt of \<open>runAgent\<close> gets the
  job id and the attachments gathered so far, is stored, and the terminal event is
  emitted.
\<close>

definition finishJob ::
  "AgentDraw \<Rightarrow> RunJobParams \<Rightarrow> SwapQuote option \<Rightarrow> SwapTxRequest option \<Rightarrow>
   OnChainEvidence option \<Rightarrow> AgentEconomics option \<Rightarrow> StageCall list \<Rightarrow> Store \<Rightarrow>
   (string + Receipt) \<times> Store \<times> StageCall list" where
  "finishJob draw p quoteResult swapTxRequest onChain economics calls s =
     (let policy = AGENT_POLICY (rp_agentId p);
          receipt0 = runAgent draw (rp_agentId p) (rp_jobType p);
          receipt1 = receipt0\<lparr>rc_jobId := rp_jobId p,
                       rc_battleId := (case rp_battleId p of
                                         None \<Rightarrow> None
                                       | Some b \<Rightarrow> if b = [] then None else Some b),
                       rc_swapParams := rp_swapParams p,
                       rc_quoteResult := quoteResult,
                       rc_swapTxRequest := swapTxRequest,
                       rc_onChain := onChain,
                       rc_policy := Some policy,
                       rc_economics := economics\<rparr>;
          receipt = (if rp_mode p \<noteq> Sim
                     then receipt1\<lparr>rc_outcome :=
                            (rc_outcome receipt1)\<lparr>om_slippageBps := ap_slippageBps policy\<rparr>\<rparr>
                     else receipt1);
          terminal = (case om_status (rc_outcome receipt) of
                        Fulfilled \<Rightarrow> Ev_fulfilled
                      | Failed \<Rightarrow> Ev_failed)
      in (Inr receipt,
          emitEvent (jobEvent terminal p None (map_option oc_txHash onChain))
            (addReceipt receipt s),
          calls @ [CallRunAgent]))"

definition runJob ::
  "Collaborators \<Rightarrow> AgentDraw \<Rightarrow> RunJobParams \<Rightarrow> Store \<Rightarrow>
   (string + Receipt) \<times> Store \<times> StageCall list" where
  "runJob env draw p s =
     (let s2 = emitEvent (jobEvent Ev_running p None None)
                 (emitEvent (jobEvent Ev_queued p None None) s);
          policy = AGENT_POLICY (rp_agentId p);
          slippagePct = ap_slippageBps policy / 100
      in if (rp_mode p = Quote \<or> rp_mode p = Real) \<and> rp_swapParams p \<noteq> None then
           (let swapParams = the (rp_swapParams p) in
            case getSwapQuote env swapParams slippagePct of
              Inl quoteErr \<Rightarrow> abortJob p ''uniswap_quote'' quoteErr [CallGetSwapQuote] s2
            | Inr quoteWithMeta \<Rightarrow>
                (let quoteResult = SwapQuote.truncate quoteWithMeta;
                     economics0 = \<lparr>ae_quotedOut = Some (sq_quotedOut quoteWithMeta),
                                   ae_gasEstimate = None,
                                   ae_hopCount = Some (qm_hopCount quoteWithMeta)\<rparr>
                 in case buildSwapTx env swapParams (sq_rawQuote quoteResult) of
                      Inl txErr \<Rightarrow>
                        abortJob p ''uniswap_tx_build'' txErr
                          [CallGetSwapQuote, CallBuildSwapTx] s2
                    | Inr swapTxRequest \<Rightarrow>
                        (let economics =
                               (case tx_gas swapTxRequest of
                                  None \<Rightarrow> economics0
                                | Some g \<Rightarrow> if g = [] then economics0
                                            else economics0\<lparr>ae_gasEstimate := Some g\<rparr>)
                         in if rp_mode p = Real then
                              (case sendTx env swapTxRequest of
                                 Inl sendErr \<Rightarrow>
                                   abortJob p
                                     (if stringIncludes sendErr ''waitForTransactionReceipt''
                                      then ''base_confirm_tx'' else ''base_send_tx'')
                                     sendErr
                                     [CallGetSwapQuote, CallBuildSwapTx, CallSendTx] s2
                               | Inr result \<Rightarrow>
                                   (let s3 = emitEvent (jobEvent Ev_tx_submitted p None
                                                          (Some (st_txHash result))) s2;
                                        onChain = \<lparr>oc_txHash = st_txHash result,
                                                   oc_blockNumber =
                                                     decimalValue (st_blockNumber result),
                                                   oc_chainId = st_chainId result,
                                                   oc_gasUsed = st_gasUsed result,
                                                   oc_status = st_status result,
                                                   oc_verifiedBy = None,
                                                   oc_confirmedAt = None\<rparr>;
                                        s4 = emitEvent (jobEvent Ev_tx_confirmed p None
                                                          (Some (st_txHash result))) s3
                                    in finishJob draw p (Some quoteResult) (Some swapTxRequest)
                                         (Some onChain) (Some economics)
                                         [CallGetSwapQuote, CallBuildSwapTx, CallSendTx] s4))
                            else finishJob draw p (Some quoteResult) (Some swapTxRequest)
                                   None (Some economics)
                                   [CallGetSwapQuote, CallBuildSwapTx] s2)))
         else finishJob draw p None None None None [] s2)"

text \<open>
  The events a run adds to the log, and concrete inputs: a collaborator set in which
  every network call throws, a draw, and a swap job.
\<close>

definition newEvents :: "Store \<Rightarrow> Store \<Rightarrow> SSEEvent list" where
  "newEvents s s' = drop (length (events s)) (events s')"

definition offlineCollaborators :: Collaborators where
  "offlineCollaborators =
     \<lparr>getSwapQuote = (\<lambda>sp pct. Inl ''UNISWAP_API_KEY not set''),
      buildSwapTx = (\<lambda>sp raw. Inl ''UNISWAP_API_KEY not set''),
      sendTx = (\<lambda>tx. Inl ''PRIVATE_KEY not set'')\<rparr>"

definition exampleDraw :: AgentDraw where
  "exampleDraw =
     \<lparr>dr_uuid = ''r1'', dr_now = 5000, dr_latencyMs = 300, dr_status = Fulfilled,
      dr_safetyFlags = [], dr_gasUsedUsd = 3 / 4, dr_slippageBps = 40\<rparr>"

definition swapJob :: "ExecutionMode \<Rightarrow> RunJobParams" where
  "swapJob mode =
     \<lparr>rp_jobId = ''j7'', rp_agentId = Fast, rp_jobType = Swap,
      rp_swapParams = Some \<lparr>sp_inputToken = ''0xaa'', sp_outputToken = ''0xbb'',
                            sp_amountIn = ''1000'', sp_chainId = 84532\<rparr>,
      rp_mode = mode, rp_battleId = None\<rparr>"

section \<open>Rounding and sums\<close>









section \<open>Facts about \<open>resolvePaperBets\<close>\<close>





lemma resolvePaperBets_existing:
  "getResultsForBattle s battleId \<noteq> [] \<Longrightarrow>
   resolvePaperBets battleId w s = (getResultsForBattle s battleId, s)"
  by (simp add: resolvePaperBets_def)


lemma battleId_betResult: "pr_battleId (betResult battleId w wp lp b) = battleId"
  by (simp add: betResult_def Let_def)

lemma resolvePaperBets_results_stored:
  assumes "getResultsForBattle s battleId = []"
  shows "getResultsForBattle (snd (resolvePaperBets battleId w s)) battleId =
         fst (resolvePaperBets battleId w s)"
proof (cases "getBetsForBattle s battleId = []")
  case True
  with assms show ?thesis by (simp add: resolvePaperBets_def)
next
  case False
  have keep: "filter (\<lambda>r. pr_battleId r = battleId) (map (betResult battleId w wp lp) bs) =
              map (betResult battleId w wp lp) bs" for wp lp bs
    by (induction bs) (simp_all add: battleId_betResult)
  have old: "filter (\<lambda>r. pr_battleId r = battleId) (paperResults s) = []"
    using assms by (simp add: getResultsForBattle_def)
  show ?thesis
    using False assms
    by (simp add: resolvePaperBets_def Let_def)
       (simp add: getResultsForBattle_def keep old)
qed

lemmas paper_eval =
  oneLoserState_def thirdsState_def specExampleState_def placeBet_def emptyPaperState_def
  resolvePaperBets_def getResultsForBattle_def getBetsForBattle_def poolOf_def betResult_def
  sumPnl_def r4_def r1_def Math_round_def Let_def

section \<open>Facts about the placement endpoint\<close>

lemma postPlace_cases:
  "postPlace parse uuid now body s = (code, s') \<Longrightarrow>
     (code = 201 \<and> (\<exists>battleId nickname agentId amount.
         pl_battleId body = JString battleId \<and> pl_nickname body = JString nickname \<and>
         validAgent (pl_agentId body) = Some agentId \<and>
         Number parse (pl_amountEth body) = Some amount \<and>
         MIN_BET \<le> amount \<and> amount \<le> MAX_BET \<and>
         s' = snd (placeBet uuid now battleId (trim nickname) agentId amount s)))
     \<or> ((code = 400 \<or> code = 409) \<and> s' = s)"
  by (auto simp: postPlace_def split: jsvalue.splits option.splits if_splits)

lemma postPlace_bad_amount:
  "(case Number parse (pl_amountEth body) of None \<Rightarrow> True | Some a \<Rightarrow> a < MIN_BET \<or> MAX_BET < a) \<Longrightarrow>
   postPlace parse uuid now body s = (400, s)"
  by (auto simp: postPlace_def split: jsvalue.splits option.splits if_splits)

lemma paperBets_placeBet:
  "paperBets (snd (placeBet uuid now battleId nickname agentId amount s)) =
   paperBets s @ [\<lparr>pb_id = uuid, pb_battleId = battleId, pb_nickname = nickname,
                    pb_agentId = agentId, pb_amountEth = amount, pb_placedAt = now\<rparr>]"
  by (simp add: placeBet_def Let_def)

lemma postPlace_keeps_range:
  assumes "\<forall>b \<in> set (paperBets s). stakeInRange b"
  shows "\<forall>b \<in> set (paperBets (snd (postPlace parse uuid now body s))). stakeInRange b"
proof -
  obtain code s' where eq: "postPlace parse uuid now body s = (code, s')"
    by (cases "postPlace parse uuid now body s")
  from postPlace_cases[OF eq] show ?thesis
  proof
    assume "code = 201 \<and> (\<exists>battleId nickname agentId amount.
         pl_battleId body = JString battleId \<and> pl_nickname body = JString nickname \<and>
         validAgent (pl_agentId body) = Some agentId \<and>
         Number parse (pl_amountEth body) = Some amount \<and>
         MIN_BET \<le> amount \<and> amount \<le> MAX_BET \<and>
         s' = snd (placeBet uuid now battleId (trim nickname) agentId amount s))"
    then obtain battleId nickname agentId amount where
      rng: "MIN_BET \<le> amount" "amount \<le> MAX_BET" and
      s': "s' = snd (placeBet uuid now battleId (trim nickname) agentId amount s)"
      by blast
    show ?thesis
      using assms rng by (simp add: eq s' paperBets_placeBet stakeInRange_def)
  next
    assume "(code = 400 \<or> code = 409) \<and> s' = s"
    with assms show ?thesis by (simp add: eq)
  qed
qed

lemma servePlaces_keeps_range:
  "\<forall>b \<in> set (paperBets s). stakeInRange b \<Longrightarrow>
   \<forall>b \<in> set (paperBets (servePlaces parse reqs s)). stakeInRange b"
proof (induction reqs arbitrary: s)
  case Nil
  then show ?case by simp
next
  case (Cons req reqs)
  obtain uuid now body where req: "req = (uuid, now, body)" by (cases req)
  show ?case
    unfolding req servePlaces.simps
    by (rule Cons.IH, rule postPlace_keeps_range, rule Cons.prems)
qed

lemma paperBets_resolvePaperBets:
  "paperBets (snd (resolvePaperBets battleId w s)) = paperBets s"
  by (simp add: resolvePaperBets_def Let_def)

section \<open>Facts about first-match search and patching\<close>

lemma findIndex_Some:
  "findIndex P xs = Some i \<Longrightarrow> i < length xs \<and> P (xs ! i) \<and> (\<forall>j < i. \<not> P (xs ! j))"
proof (induction xs arbitrary: i)
  case Nil
  then show ?case by simp
next
  case (Cons x xs)
  show ?case
  proof (cases "P x")
    case True
    with Cons.prems show ?thesis by simp
  next
    case False
    with Cons.prems obtain k where k: "findIndex P xs = Some k" "i = Suc k"
      by auto
    from Cons.IH[OF k(1)] False k(2) show ?thesis
      by (auto simp: nth_Cons' less_Suc_eq_0_disj)
  qed
qed

lemma findIndex_None: "findIndex P xs = None \<longleftrightarrow> (\<forall>x \<in> set xs. \<not> P x)"
  by (induction xs) auto

lemma patchFirst_length [simp]: "length (patchFirst P f xs) = length xs"
  by (induction xs) auto

lemma patchFirst_none: "\<forall>x \<in> set xs. \<not> P x \<Longrightarrow> patchFirst P f xs = xs"
  by (induction xs) auto

lemma patchFirst_findIndex:
  "findIndex P xs = Some i \<Longrightarrow> patchFirst P f xs = xs[i := f (xs ! i)]"
proof (induction xs arbitrary: i)
  case Nil
  then show ?case by simp
next
  case (Cons x xs)
  then show ?case by (cases "P x") auto
qed

lemma find_findIndex: "find P xs = map_option (\<lambda>i. xs ! i) (findIndex P xs)"
  by (induction xs) (auto simp: option.map_comp comp_def)

section \<open>Facts about stream reconciliation\<close>

lemma receipts_updateBattleScorecard [simp]:
  "receipts (updateBattleScorecard b a p s) = receipts s"
  by (simp add: updateBattleScorecard_def)

lemma receipts_applyStreamConfirmation:
  "receipts (applyStreamConfirmation i gasUsed evmStatus now s) =
   (receipts s)[i := confirmReceipt gasUsed evmStatus now (receipts s ! i)]"
  by (simp add: applyStreamConfirmation_def Let_def split: option.splits)

lemma battles_applyStreamConfirmation:
  "battles (applyStreamConfirmation i gasUsed evmStatus now s) =
   (case rc_battleId (receipts s ! i) of
      None \<Rightarrow> battles s
    | Some battleId \<Rightarrow>
        if battleId = [] then battles s
        else battles (updateBattleScorecard battleId (rc_agentId (receipts s ! i))
                        (\<lambda>c. c\<lparr>sc_verifiedByStream := Some True\<rparr>) s))"
  by (simp add: applyStreamConfirmation_def confirmReceipt_def updateBattleScorecard_def Let_def
      split: option.splits)

lemma receipts_ingestSwap:
  "receipts (ingestSwap now raw s) =
   (case findReceiptByTxHash s (rs_txHash raw) of
      None \<Rightarrow> receipts s
    | Some i \<Rightarrow> (receipts s)[i := confirmReceipt (rs_gasUsed raw) (rs_status raw) now (receipts s ! i)])"
  by (simp add: ingestSwap_def Let_def emitEvent_def addStreamEvent_def
      receipts_applyStreamConfirmation split: option.splits)

lemma battles_ingestSwap:
  "battles (ingestSwap now raw s) =
   (case findReceiptByTxHash s (rs_txHash raw) of
      None \<Rightarrow> battles s
    | Some i \<Rightarrow> battles (applyStreamConfirmation i (rs_gasUsed raw) (rs_status raw) now s))"
  by (simp add: ingestSwap_def Let_def emitEvent_def addStreamEvent_def split: option.splits)

lemma card_marked:
  assumes "findIndex (\<lambda>b. br_battleId b = battleId) (battles s) = Some k"
    and "findIndex (\<lambda>c. sc_agentId c = agentId) (br_scorecards (battles s ! k)) = Some m"
  shows "battles (updateBattleScorecard battleId agentId patch s) =
         (battles s)[k := (battles s ! k)\<lparr>br_scorecards :=
            (br_scorecards (battles s ! k))[m := patch (br_scorecards (battles s ! k) ! m)]\<rparr>]"
  using assms by (simp add: updateBattleScorecard_def patchFirst_findIndex)

section \<open>Facts about sorting and the first best element\<close>





lemma hd_insertBy:
  "insertBy cmp x ys = (case ys of [] \<Rightarrow> [x] | y # ys' \<Rightarrow>
      if notAfter (cmp x y) then x # ys else y # insertBy cmp x ys')"
  by (cases ys) simp_all

lemma jsSort_Nil [simp]: "jsSort cmp [] = []"
  by (simp add: jsSort_def)

lemma jsSort_Cons: "jsSort cmp (x # xs) = insertBy cmp x (jsSort cmp xs)"
  by (simp add: jsSort_def)

lemma jsSort_eq_Nil [simp]: "jsSort cmp xs = [] \<longleftrightarrow> xs = []"
proof (cases xs)
  case Nil then show ?thesis by simp
next
  case (Cons x xs')
  then show ?thesis by (cases "jsSort cmp xs'") (simp_all add: jsSort_Cons)
qed


section \<open>Facts about \<open>determineWinner\<close>\<close>









section \<open>Facts about the score model\<close>







lemma map_bounds:
  "(\<And>r. lo \<le> f r \<and> f r \<le> hi) \<Longrightarrow> \<forall>x \<in> set (map f rs). lo \<le> x \<and> x \<le> hi"
  by auto









section \<open>Facts about the job pipeline\<close>

lemma runJob_sim:
  "rp_mode p = Sim \<Longrightarrow>
   runJob env draw p s =
     finishJob draw p None None None None []
       (emitEvent (jobEvent Ev_running p None None) (emitEvent (jobEvent Ev_queued p None None) s))"
  by (simp add: runJob_def Let_def)

lemma finishJob_result:
  "\<exists>receipt. finishJob draw p q t oc ec calls s =
     (Inr receipt,
      emitEvent (jobEvent (case om_status (rc_outcome receipt) of
                             Fulfilled \<Rightarrow> Ev_fulfilled | Failed \<Rightarrow> Ev_failed)
                   p None (map_option oc_txHash oc))
        (addReceipt receipt s),
      calls @ [CallRunAgent]) \<and>
     rc_jobId receipt = rp_jobId p \<and> rc_agentId receipt = rp_agentId p \<and>
     om_status (rc_outcome receipt) = dr_status draw \<and>
     rc_swapParams receipt = rp_swapParams p \<and> rc_onChain receipt = oc"
  by (simp add: finishJob_def runAgent_def Let_def)

lemma newEvents_emit2:
  "newEvents s (emitEvent e3 (addReceipt r (emitEvent e2 (emitEvent e1 s)))) = [e1, e2, e3]"
  by (simp add: newEvents_def emitEvent_def addReceipt_def)

lemma runJob_calls_events:
  "runJob env draw p s = (res, s', calls) \<Longrightarrow>
   (CallSendTx \<in> set calls \<longrightarrow> rp_mode p = Real) \<and>
   (CallGetSwapQuote \<in> set calls \<or> CallBuildSwapTx \<in> set calls \<longrightarrow>
      rp_mode p \<noteq> Sim \<and> rp_swapParams p \<noteq> None) \<and>
   (Ev_tx_submitted \<in> set (map ev_type (newEvents s s')) \<or>
    Ev_tx_confirmed \<in> set (map ev_type (newEvents s s')) \<longrightarrow> rp_mode p = Real)"
  by (auto simp: runJob_def finishJob_def abortJob_def Let_def newEvents_def emitEvent_def
      addReceipt_def jobEvent_def split: sum.splits if_splits JobStatus.splits)

section \<open>The claims\<close>







text \<open>
  C3.  Once \<open>resolvePaperBets\<close> has returned results for a battle, calling it again
  for that battle, with any winner argument, returns exactly those results and
  leaves the whole betting state as it was: the stored results, every per-nickname
  aggregate (cumulative profit, bet count, win count, cumulative stake, biggest win,
  biggest loss, streak) and the emitted events.
\<close>

theorem C3_resolve_idempotent:
  assumes "resolvePaperBets battleId w s = (res, s')"
    and "res \<noteq> []"
  shows "resolvePaperBets battleId w' s' = (res, s') \<and>
         nicknameStats (snd (resolvePaperBets battleId w' s')) = nicknameStats s'"
proof (cases "getResultsForBattle s battleId = []")
  case True
  have "getResultsForBattle s' battleId = res"
    using resolvePaperBets_results_stored[OF True, of w] assms(1) by simp
  with assms(2) show ?thesis
    by (simp add: resolvePaperBets_existing)
next
  case False
  from resolvePaperBets_existing[OF False, of w] assms(1)
  have eq: "res = getResultsForBattle s battleId" and st: "s' = s"
    by simp_all
  have "resolvePaperBets battleId w' s = (getResultsForBattle s battleId, s)"
    by (rule resolvePaperBets_existing[OF False])
  then show ?thesis unfolding eq st by simp
qed

theorem C3_resolve_idempotent_witness:
  "resolvePaperBets ''b3'' Safe (snd (resolvePaperBets ''b3'' Fast specExampleState)) =
     resolvePaperBets ''b3'' Fast specExampleState \<and>
   fst (resolvePaperBets ''b3'' Fast specExampleState) \<noteq> []"
proof -
  have ne: "fst (resolvePaperBets ''b3'' Fast specExampleState) \<noteq> []"
    by (simp add: paper_eval)
  from C3_resolve_idempotent[OF surjective_pairing ne, of Safe] ne
  show ?thesis by simp
qed





text \<open>
  C6 (as stated, refuted).  The claim: every insertion keeps the receipt collection
  within a fixed capacity.  \<open>addReceipt\<close> only appends: no capacity bounds the
  receipts of every store, and a store that holds 5000 receipts holds 5001 after the
  next insertion, the oldest one still in front.
\<close>

theorem C6_receipts_unbounded_counterexample:
  "\<not> (\<exists>capacity. \<forall>s r. length (receipts (addReceipt r s)) \<le> capacity) \<and>
   length (receipts (addReceipt exampleReceipt
             (emptyStore\<lparr>receipts := replicate 5000 exampleReceipt\<rparr>))) = 5001 \<and>
   receipts (addReceipt exampleReceipt (emptyStore\<lparr>receipts := replicate 5000 exampleReceipt\<rparr>))
     = replicate 5000 exampleReceipt @ [exampleReceipt]"
proof -
  have "\<exists>s r. \<not> length (receipts (addReceipt r s)) \<le> capacity" for capacity
  proof -
    have "\<not> length (receipts (addReceipt exampleReceipt
                 (emptyStore\<lparr>receipts := replicate capacity exampleReceipt\<rparr>))) \<le> capacity"
      by (simp add: addReceipt_def)
    then show ?thesis by blast
  qed
  then have "\<not> (\<exists>capacity. \<forall>s r. length (receipts (addReceipt r s)) \<le> capacity)"
    by blast
  then show ?thesis
    by (simp add: addReceipt_def)
qed

text \<open>
  C6 (amended).  The battle-record collection and the normalised stream-event
  collection stay within a fixed capacity, 100 and 5000: after an insertion they hold
  the newest entries of the old collection followed by the new entry, the oldest ones
  dropped from the front (FIFO), and no other collection changes.  The receipt
  collection is not bounded: an insertion appends the receipt and evicts nothing.
\<close>

theorem C6_bounded_collections:
  "length (battles (addBattle b s)) \<le> 100 \<and>
   battles (addBattle b s) = drop (length (battles s) + 1 - 100) (battles s @ [b]) \<and>
   length (streamEvents (addStreamEvent e s)) \<le> 5000 \<and>
   streamEvents (addStreamEvent e s) = drop (length (streamEvents s) + 1 - 5000) (streamEvents s @ [e]) \<and>
   receipts (addReceipt r s) = receipts s @ [r] \<and>
   length (battles (addBattle b s)) = min (length (battles s) + 1) 100 \<and>
   length (streamEvents (addStreamEvent e s)) = min (length (streamEvents s) + 1) 5000"
  by (simp add: addBattle_def addStreamEvent_def addReceipt_def MAX_BATTLES_def
      MAX_STREAM_EVENTS_def Let_def)

text \<open>
  C7.  Reconciliation of a normalised confirmation event.  The search finds the
  first receipt whose on-chain transaction hash equals the event's, compared in lower
  case, and finds none exactly when no receipt matches.  When receipt \<open>i\<close> is found:
  its gas-used, on-chain status, verification source and verification timestamp are
  overwritten, its \<open>outcome.status\<close> becomes fulfilled exactly when the event's EVM
  status is \<open>success\<close> and failed otherwise, every other receipt stays as it was, and,
  when the receipt carries a battle id and that battle is in the store with a
  scorecard of the receipt's agent, that scorecard is marked stream-verified.  When
  no receipt matches, neither the receipts nor the battles change.
\<close>

theorem C7_reconciliation:
  fixes s :: Store and raw :: RawSwap and now :: int
  defines "s' \<equiv> ingestSwap now raw s"
  defines "matches \<equiv> (\<lambda>r. \<exists>oc. rc_onChain r = Some oc \<and>
                              toLowerCase (oc_txHash oc) = toLowerCase (rs_txHash raw))"
  shows "(findReceiptByTxHash s (rs_txHash raw) = None \<longleftrightarrow> (\<forall>r \<in> set (receipts s). \<not> matches r)) \<and>
         (findReceiptByTxHash s (rs_txHash raw) = None \<longrightarrow>
            receipts s' = receipts s \<and> battles s' = battles s) \<and>
         (\<forall>i. findReceiptByTxHash s (rs_txHash raw) = Some i \<longrightarrow>
            i < length (receipts s) \<and> matches (receipts s ! i) \<and>
            (\<forall>j < i. \<not> matches (receipts s ! j)) \<and>
            length (receipts s') = length (receipts s) \<and>
            (\<forall>j < length (receipts s). j \<noteq> i \<longrightarrow> receipts s' ! j = receipts s ! j) \<and>
            om_status (rc_outcome (receipts s' ! i)) =
              (if rs_status raw = ''success'' then Fulfilled else Failed) \<and>
            (\<exists>oc oc'. rc_onChain (receipts s ! i) = Some oc \<and>
               rc_onChain (receipts s' ! i) = Some oc' \<and>
               oc_gasUsed oc' = rs_gasUsed raw \<and>
               oc_status oc' = (if rs_status raw = ''success'' then Success else Reverted) \<and>
               oc_verifiedBy oc' = Some Quicknode \<and>
               oc_confirmedAt oc' = Some now \<and>
               oc_txHash oc' = oc_txHash oc) \<and>
            rc_jobId (receipts s' ! i) = rc_jobId (receipts s ! i) \<and>
            rc_agentId (receipts s' ! i) = rc_agentId (receipts s ! i) \<and>
            rc_battleId (receipts s' ! i) = rc_battleId (receipts s ! i) \<and>
            (rc_battleId (receipts s ! i) = None \<or> rc_battleId (receipts s ! i) = Some [] \<longrightarrow>
               battles s' = battles s) \<and>
            (\<forall>battleId k m.
               rc_battleId (receipts s ! i) = Some battleId \<and> battleId \<noteq> [] \<and>
               findIndex (\<lambda>b. br_battleId b = battleId) (battles s) = Some k \<and>
               findIndex (\<lambda>c. sc_agentId c = rc_agentId (receipts s ! i))
                 (br_scorecards (battles s ! k)) = Some m \<longrightarrow>
               battles s' = (battles s)[k := (battles s ! k)\<lparr>br_scorecards :=
                  (br_scorecards (battles s ! k))[m :=
                     (br_scorecards (battles s ! k) ! m)\<lparr>sc_verifiedByStream := Some True\<rparr>]\<rparr>] \<and>
               sc_verifiedByStream (br_scorecards (battles s' ! k) ! m) = Some True))"
proof -
  have m: "matches = txHashMatches (rs_txHash raw)"
    by (auto simp: matches_def txHashMatches_def fun_eq_iff split: option.splits)
  have none: "findReceiptByTxHash s (rs_txHash raw) = None \<longleftrightarrow>
              (\<forall>r \<in> set (receipts s). \<not> matches r)"
    by (simp add: findReceiptByTxHash_def findIndex_None m)
  have unmatched: "receipts s' = receipts s \<and> battles s' = battles s"
    if "findReceiptByTxHash s (rs_txHash raw) = None"
    using that by (simp add: s'_def receipts_ingestSwap battles_ingestSwap)
  have matched: "i < length (receipts s) \<and> matches (receipts s ! i) \<and>
            (\<forall>j < i. \<not> matches (receipts s ! j)) \<and>
            length (receipts s') = length (receipts s) \<and>
            (\<forall>j < length (receipts s). j \<noteq> i \<longrightarrow> receipts s' ! j = receipts s ! j) \<and>
            om_status (rc_outcome (receipts s' ! i)) =
              (if rs_status raw = ''success'' then Fulfilled else Failed) \<and>
            (\<exists>oc oc'. rc_onChain (receipts s ! i) = Some oc \<and>
               rc_onChain (receipts s' ! i) = Some oc' \<and>
               oc_gasUsed oc' = rs_gasUsed raw \<and>
               oc_status oc' = (if rs_status raw = ''success'' then Success else Reverted) \<and>
               oc_verifiedBy oc' = Some Quicknode \<and>
               oc_confirmedAt oc' = Some now \<and>
               oc_txHash oc' = oc_txHash oc) \<and>
            rc_jobId (receipts s' ! i) = rc_jobId (receipts s ! i) \<and>
            rc_agentId (receipts s' ! i) = rc_agentId (receipts s ! i) \<and>
            rc_battleId (receipts s' ! i) = rc_battleId (receipts s ! i) \<and>
            (rc_battleId (receipts s ! i) = None \<or> rc_battleId (receipts s ! i) = Some [] \<longrightarrow>
               battles s' = battles s) \<and>
            (\<forall>battleId k m.
               rc_battleId (receipts s ! i) = Some battleId \<and> battleId \<noteq> [] \<and>
               findIndex (\<lambda>b. br_battleId b = battleId) (battles s) = Some k \<and>
               findIndex (\<lambda>c. sc_agentId c = rc_agentId (receipts s ! i))
                 (br_scorecards (battles s ! k)) = Some m \<longrightarrow>
               battles s' = (battles s)[k := (battles s ! k)\<lparr>br_scorecards :=
                  (br_scorecards (battles s ! k))[m :=
                     (br_scorecards (battles s ! k) ! m)\<lparr>sc_verifiedByStream := Some True\<rparr>]\<rparr>] \<and>
               sc_verifiedByStream (br_scorecards (battles s' ! k) ! m) = Some True)"
    if found: "findReceiptByTxHash s (rs_txHash raw) = Some i" for i
  proof -
    from found have fi: "findIndex (txHashMatches (rs_txHash raw)) (receipts s) = Some i"
      by (simp add: findReceiptByTxHash_def)
    from findIndex_Some[OF fi]
    have first: "i < length (receipts s)" "matches (receipts s ! i)"
      "\<forall>j < i. \<not> matches (receipts s ! j)"
      by (simp_all add: m)
    have rs: "receipts s' =
        (receipts s)[i := confirmReceipt (rs_gasUsed raw) (rs_status raw) now (receipts s ! i)]"
      by (simp add: s'_def receipts_ingestSwap found)
    have ri: "receipts s' ! i =
        confirmReceipt (rs_gasUsed raw) (rs_status raw) now (receipts s ! i)"
      using first(1) by (simp add: rs)
    from first(2) obtain oc where oc: "rc_onChain (receipts s ! i) = Some oc"
      by (auto simp: matches_def)
    have bs: "battles s' = battles (applyStreamConfirmation i (rs_gasUsed raw) (rs_status raw) now s)"
      by (simp add: s'_def battles_ingestSwap found)
    have nobattle: "battles s' = battles s"
      if "rc_battleId (receipts s ! i) = None \<or> rc_battleId (receipts s ! i) = Some []"
      using that by (auto simp: bs battles_applyStreamConfirmation)
    have marked: "battles s' = (battles s)[k := (battles s ! k)\<lparr>br_scorecards :=
                  (br_scorecards (battles s ! k))[m :=
                     (br_scorecards (battles s ! k) ! m)\<lparr>sc_verifiedByStream := Some True\<rparr>]\<rparr>] \<and>
               sc_verifiedByStream (br_scorecards (battles s' ! k) ! m) = Some True"
      if h: "rc_battleId (receipts s ! i) = Some battleId \<and> battleId \<noteq> [] \<and>
               findIndex (\<lambda>b. br_battleId b = battleId) (battles s) = Some k \<and>
               findIndex (\<lambda>c. sc_agentId c = rc_agentId (receipts s ! i))
                 (br_scorecards (battles s ! k)) = Some m" for battleId k m
    proof -
      from h have k: "findIndex (\<lambda>b. br_battleId b = battleId) (battles s) = Some k"
        and c: "findIndex (\<lambda>c. sc_agentId c = rc_agentId (receipts s ! i))
                 (br_scorecards (battles s ! k)) = Some m"
        by simp_all
      have eq: "battles s' = (battles s)[k := (battles s ! k)\<lparr>br_scorecards :=
                  (br_scorecards (battles s ! k))[m :=
                     (br_scorecards (battles s ! k) ! m)\<lparr>sc_verifiedByStream := Some True\<rparr>]\<rparr>]"
        using h by (simp add: bs battles_applyStreamConfirmation card_marked[OF k c])
      from findIndex_Some[OF k] findIndex_Some[OF c]
      have "k < length (battles s)" "m < length (br_scorecards (battles s ! k))"
        by simp_all
      then show ?thesis by (simp add: eq)
    qed
    have fields: "i < length (receipts s) \<and> matches (receipts s ! i) \<and>
            (\<forall>j < i. \<not> matches (receipts s ! j)) \<and>
            length (receipts s') = length (receipts s) \<and>
            (\<forall>j < length (receipts s). j \<noteq> i \<longrightarrow> receipts s' ! j = receipts s ! j) \<and>
            om_status (rc_outcome (receipts s' ! i)) =
              (if rs_status raw = ''success'' then Fulfilled else Failed) \<and>
            (\<exists>oc oc'. rc_onChain (receipts s ! i) = Some oc \<and>
               rc_onChain (receipts s' ! i) = Some oc' \<and>
               oc_gasUsed oc' = rs_gasUsed raw \<and>
               oc_status oc' = (if rs_status raw = ''success'' then Success else Reverted) \<and>
               oc_verifiedBy oc' = Some Quicknode \<and>
               oc_confirmedAt oc' = Some now \<and>
               oc_txHash oc' = oc_txHash oc) \<and>
            rc_jobId (receipts s' ! i) = rc_jobId (receipts s ! i) \<and>
            rc_agentId (receipts s' ! i) = rc_agentId (receipts s ! i) \<and>
            rc_battleId (receipts s' ! i) = rc_battleId (receipts s ! i)"
      using first oc by (simp add: rs ri confirmReceipt_def)
    from fields nobattle marked show ?thesis by blast
  qed
  show ?thesis using none unmatched matched by blast
qed

theorem C7_reconciliation_witness:
  "findReceiptByTxHash exampleStore (rs_txHash revertedSwap) = Some 0 \<and>
   om_status (rc_outcome (receipts exampleStore ! 0)) = Fulfilled \<and>
   om_status (rc_outcome (receipts (ingestSwap 5000 revertedSwap exampleStore) ! 0)) = Failed \<and>
   sc_verifiedByStream
     (br_scorecards (battles (ingestSwap 5000 revertedSwap exampleStore) ! 0) ! 1) = Some True \<and>
   findReceiptByTxHash exampleStore (rs_txHash unknownSwap) = None \<and>
   receipts (ingestSwap 5000 unknownSwap exampleStore) = receipts exampleStore \<and>
   battles (ingestSwap 5000 unknownSwap exampleStore) = battles exampleStore"
proof -
  have found: "findReceiptByTxHash exampleStore (rs_txHash revertedSwap) = Some 0"
    by (simp add: findReceiptByTxHash_def exampleStore_def emptyStore_def exampleReceipt_def
        revertedSwap_def txHashMatches_def toLowerCase_def lowerChar_def)
  have missing: "findReceiptByTxHash exampleStore (rs_txHash unknownSwap) = None"
    by (simp add: findReceiptByTxHash_def exampleStore_def emptyStore_def exampleReceipt_def
        unknownSwap_def revertedSwap_def txHashMatches_def toLowerCase_def lowerChar_def)
  have before: "om_status (rc_outcome (receipts exampleStore ! 0)) = Fulfilled"
    by (simp add: exampleStore_def emptyStore_def exampleReceipt_def)
  have bid: "rc_battleId (receipts exampleStore ! 0) = Some ''b1'' \<and> ''b1'' \<noteq> [] \<and>
      findIndex (\<lambda>b. br_battleId b = ''b1'') (battles exampleStore) = Some 0 \<and>
      findIndex (\<lambda>c. sc_agentId c = rc_agentId (receipts exampleStore ! 0))
        (br_scorecards (battles exampleStore ! 0)) = Some 1"
    by (simp add: exampleStore_def emptyStore_def exampleReceipt_def exampleBattle_def
        pendingCard_def)
  have status: "rs_status revertedSwap \<noteq> ''success''"
    by (simp add: revertedSwap_def)
  note hit = C7_reconciliation[of exampleStore revertedSwap 5000, THEN conjunct2, THEN conjunct2,
      rule_format, OF found]
  from hit status
  have after: "om_status (rc_outcome (receipts (ingestSwap 5000 revertedSwap exampleStore) ! 0)) = Failed"
    by simp
  from hit bid
  have card: "sc_verifiedByStream
     (br_scorecards (battles (ingestSwap 5000 revertedSwap exampleStore) ! 0) ! 1) = Some True"
    by blast
  note miss = C7_reconciliation[of exampleStore unknownSwap 5000, THEN conjunct2, THEN conjunct1,
      rule_format, OF missing]
  from found before after card missing miss show ?thesis by simp
qed

text \<open>
  C8.  A job run in the simulate-only mode \<open>sim\<close>, with or without swap parameters,
  calls none of the quote, transaction-build and broadcast collaborators and emits
  no \<open>tx_submitted\<close> or \<open>tx_confirmed\<close> event; it runs the simulate-outcome stage,
  returns and stores the receipt, and emits \<open>queued\<close>, \<open>running\<close> and the terminal
  \<open>fulfilled\<close> or \<open>failed\<close> event of the receipt's verdict.  In every mode, the
  broadcast collaborator is called and the two transaction events are emitted only in
  the mode \<open>real\<close>, and the quote and build collaborators only outside \<open>sim\<close> for a
  job that carries swap parameters.
\<close>

theorem C8_sim_pipeline:
  "(rp_mode p = Sim \<longrightarrow>
      (\<exists>receipt.
         fst (runJob env draw p s) = Inr receipt \<and>
         snd (snd (runJob env draw p s)) = [CallRunAgent] \<and>
         receipts (fst (snd (runJob env draw p s))) = receipts s @ [receipt] \<and>
         rc_jobId receipt = rp_jobId p \<and>
         rc_swapParams receipt = rp_swapParams p \<and>
         om_status (rc_outcome receipt) = dr_status draw \<and>
         map ev_type (newEvents s (fst (snd (runJob env draw p s)))) =
           [Ev_queued, Ev_running,
            (case om_status (rc_outcome receipt) of
               Fulfilled \<Rightarrow> Ev_fulfilled | Failed \<Rightarrow> Ev_failed)])) \<and>
   (CallSendTx \<in> set (snd (snd (runJob env draw p s))) \<longrightarrow> rp_mode p = Real) \<and>
   (CallGetSwapQuote \<in> set (snd (snd (runJob env draw p s))) \<or>
    CallBuildSwapTx \<in> set (snd (snd (runJob env draw p s))) \<longrightarrow>
      rp_mode p \<noteq> Sim \<and> rp_swapParams p \<noteq> None) \<and>
   (Ev_tx_submitted \<in> set (map ev_type (newEvents s (fst (snd (runJob env draw p s))))) \<or>
    Ev_tx_confirmed \<in> set (map ev_type (newEvents s (fst (snd (runJob env draw p s))))) \<longrightarrow>
      rp_mode p = Real)"
proof -
  have sim: "\<exists>receipt.
         fst (runJob env draw p s) = Inr receipt \<and>
         snd (snd (runJob env draw p s)) = [CallRunAgent] \<and>
         receipts (fst (snd (runJob env draw p s))) = receipts s @ [receipt] \<and>
         rc_jobId receipt = rp_jobId p \<and>
         rc_swapParams receipt = rp_swapParams p \<and>
         om_status (rc_outcome receipt) = dr_status draw \<and>
         map ev_type (newEvents s (fst (snd (runJob env draw p s)))) =
           [Ev_queued, Ev_running,
            (case om_status (rc_outcome receipt) of
               Fulfilled \<Rightarrow> Ev_fulfilled | Failed \<Rightarrow> Ev_failed)]"
    if m: "rp_mode p = Sim"
  proof -
    let ?s2 = "emitEvent (jobEvent Ev_running p None None)
                 (emitEvent (jobEvent Ev_queued p None None) s)"
    from finishJob_result[of draw p None None None None "[]" ?s2]
    obtain receipt where
      fin: "finishJob draw p None None None None [] ?s2 =
        (Inr receipt,
         emitEvent (jobEvent (case om_status (rc_outcome receipt) of
                                Fulfilled \<Rightarrow> Ev_fulfilled | Failed \<Rightarrow> Ev_failed)
                      p None None)
           (addReceipt receipt ?s2),
         [CallRunAgent])"
      and fields: "rc_jobId receipt = rp_jobId p" "om_status (rc_outcome receipt) = dr_status draw"
        "rc_swapParams receipt = rp_swapParams p"
      by auto
    have run: "runJob env draw p s =
        (Inr receipt,
         emitEvent (jobEvent (case om_status (rc_outcome receipt) of
                                Fulfilled \<Rightarrow> Ev_fulfilled | Failed \<Rightarrow> Ev_failed)
                      p None None)
           (addReceipt receipt ?s2),
         [CallRunAgent])"
      using runJob_sim[OF m, of env draw s] fin by simp
    have stored: "receipts (fst (snd (runJob env draw p s))) = receipts s @ [receipt]"
      by (simp add: run emitEvent_def addReceipt_def)
    have evs: "map ev_type (newEvents s (fst (snd (runJob env draw p s)))) =
           [Ev_queued, Ev_running,
            (case om_status (rc_outcome receipt) of
               Fulfilled \<Rightarrow> Ev_fulfilled | Failed \<Rightarrow> Ev_failed)]"
      by (simp add: run newEvents_emit2 jobEvent_def)
    from run stored evs fields show ?thesis by simp
  qed
  obtain res s' calls where eq: "runJob env draw p s = (res, s', calls)"
    by (cases "runJob env draw p s")
  from runJob_calls_events[OF eq] sim show ?thesis
    unfolding eq by simp
qed

theorem C8_sim_pipeline_witness:
  "fst (runJob offlineCollaborators exampleDraw (swapJob Sim) emptyStore) \<noteq>
     Inl ''UNISWAP_API_KEY not set'' \<and>
   snd (snd (runJob offlineCollaborators exampleDraw (swapJob Sim) emptyStore)) = [CallRunAgent] \<and>
   map ev_type (events (fst (snd (runJob offlineCollaborators exampleDraw (swapJob Sim) emptyStore))))
     = [Ev_queued, Ev_running, Ev_fulfilled] \<and>
   length (receipts (fst (snd (runJob offlineCollaborators exampleDraw (swapJob Sim) emptyStore)))) = 1 \<and>
   fst (runJob offlineCollaborators exampleDraw (swapJob Quote) emptyStore) =
     Inl ''UNISWAP_API_KEY not set'' \<and>
   snd (snd (runJob offlineCollaborators exampleDraw (swapJob Quote) emptyStore)) =
     [CallGetSwapQuote]"
proof -
  let ?run = "runJob offlineCollaborators exampleDraw (swapJob Sim) emptyStore"
  have m: "rp_mode (swapJob Sim) = Sim" by (simp add: swapJob_def)
  from C8_sim_pipeline[of "swapJob Sim" offlineCollaborators exampleDraw emptyStore,
      THEN conjunct1, rule_format, OF m]
  obtain receipt where r:
    "fst ?run = Inr receipt \<and>
     snd (snd ?run) = [CallRunAgent] \<and>
     receipts (fst (snd ?run)) = receipts emptyStore @ [receipt] \<and>
     rc_jobId receipt = rp_jobId (swapJob Sim) \<and>
     rc_swapParams receipt = rp_swapParams (swapJob Sim) \<and>
     om_status (rc_outcome receipt) = dr_status exampleDraw \<and>
     map ev_type (newEvents emptyStore (fst (snd ?run))) =
       [Ev_queued, Ev_running,
        (case om_status (rc_outcome receipt) of Fulfilled \<Rightarrow> Ev_fulfilled | Failed \<Rightarrow> Ev_failed)]" ..
  have res: "fst ?run \<noteq> Inl ''UNISWAP_API_KEY not set''" using r by simp
  have calls: "snd (snd ?run) = [CallRunAgent]" using r by simp
  have st: "om_status (rc_outcome receipt) = Fulfilled"
    using r by (simp add: exampleDraw_def)
  have evs: "map ev_type (events (fst (snd ?run))) = [Ev_queued, Ev_running, Ev_fulfilled]"
    using r unfolding st by (simp add: newEvents_def emptyStore_def)
  have len: "length (receipts (fst (snd ?run))) = 1"
    using r by (simp add: emptyStore_def)
  have quote: "runJob offlineCollaborators exampleDraw (swapJob Quote) emptyStore =
      (Inl ''UNISWAP_API_KEY not set'',
       emitEvent (jobEvent Ev_failed (swapJob Quote) None None)
         (emitEvent (jobEvent Ev_failed (swapJob Quote) (Some ''uniswap_quote'') None)
           (emitEvent (jobEvent Ev_running (swapJob Quote) None None)
             (emitEvent (jobEvent Ev_queued (swapJob Quote) None None) emptyStore))),
       [CallGetSwapQuote])"
    by (simp add: runJob_def abortJob_def offlineCollaborators_def swapJob_def Let_def)
  from res calls evs len quote show ?thesis by simp
qed

text \<open>
  C9 (as stated, refuted).  The claim: a request whose agent list has duplicate
  identities is rejected.  The handler checks the length of the list and that each
  entry is a known agent, and nothing else: the request with the agents
  \<open>[safe, safe]\<close> is answered 202 and its battle record is created.
\<close>

theorem C9_duplicates_counterexample:
  "fst (postBattle False ''b9'' 9 duplicateBody emptyStore) = 202 \<and>
   map br_agentIds (battles (snd (postBattle False ''b9'' 9 duplicateBody emptyStore)))
     = [[Safe, Safe]] \<and>
   \<not> distinct [Safe, Safe]"
  by (simp add: postBattle_def duplicateBody_def emptyStore_def validType_def validAgent_def
      agentOfString_def addBattle_def MAX_BATTLES_def Let_def)

text \<open>
  C9 (amended).  Battle creation accepts its inputs (status 202, one battle record
  appended) only when the battle type is one of speed, gas, reliability, slippage and
  the agent list is an array of 2 to 3 known agent identities, duplicates allowed.
  Every other answer leaves the store as it was; with the payment gate open, a
  request that violates the condition is answered 400 before any battle record is
  created.
\<close>

theorem C9_battle_validation:
  "(fst (postBattle gate uuid now body s) = 202 \<longrightarrow>
      (\<exists>type rawIds.
         validType (bb_battleType body) = Some type \<and>
         bb_agentIds body = JArray rawIds \<and>
         2 \<le> length rawIds \<and> length rawIds \<le> 3 \<and>
         (\<forall>v \<in> set rawIds. validAgent v \<noteq> None) \<and>
         snd (postBattle gate uuid now body s) =
           addBattle
             \<lparr>br_battleId = uuid, br_createdAt = now, br_battleType = type,
              br_agentIds = map (\<lambda>v. the (validAgent v)) rawIds,
              br_scorecards = map scorecardFor (map (\<lambda>v. the (validAgent v)) rawIds),
              br_status = Running, br_winnerAgentId = None, br_resolveTxHash = None\<rparr> s)) \<and>
   (fst (postBattle gate uuid now body s) \<noteq> 202 \<longrightarrow>
      snd (postBattle gate uuid now body s) = s \<and>
      (fst (postBattle gate uuid now body s) = 400 \<or>
       fst (postBattle gate uuid now body s) = 402)) \<and>
   (\<not> gate \<and>
    (validType (bb_battleType body) = None \<or>
     (\<forall>rawIds. bb_agentIds body = JArray rawIds \<longrightarrow>
        length rawIds < 2 \<or> 3 < length rawIds \<or> (\<exists>v \<in> set rawIds. validAgent v = None)))
    \<longrightarrow> postBattle gate uuid now body s = (400, s))"
  by (auto simp: postBattle_def Let_def split: option.splits jsvalue.splits)

theorem C9_battle_validation_witness:
  "fst (postBattle False ''b7'' 7 threeAgentsBody emptyStore) = 202 \<and>
   map br_agentIds (battles (snd (postBattle False ''b7'' 7 threeAgentsBody emptyStore)))
     = [[Safe, Fast, Cheap]] \<and>
   postBattle False ''b7'' 7 (threeAgentsBody\<lparr>bb_agentIds := JArray [JString ''safe'']\<rparr>) emptyStore
     = (400, emptyStore) \<and>
   postBattle False ''b7'' 7 (threeAgentsBody\<lparr>bb_battleType := JString ''luck''\<rparr>) emptyStore
     = (400, emptyStore)"
proof -
  note T = C9_battle_validation[of False "''b7''" 7 _ emptyStore]
  have ok: "fst (postBattle False ''b7'' 7 threeAgentsBody emptyStore) = 202"
    by (simp add: postBattle_def threeAgentsBody_def validType_def validAgent_def
        agentOfString_def Let_def)
  from T[of threeAgentsBody, THEN conjunct1, rule_format, OF ok]
  obtain type rawIds where
    "bb_agentIds threeAgentsBody = JArray rawIds"
    "snd (postBattle False ''b7'' 7 threeAgentsBody emptyStore) =
       addBattle
         \<lparr>br_battleId = ''b7'', br_createdAt = 7, br_battleType = type,
          br_agentIds = map (\<lambda>v. the (validAgent v)) rawIds,
          br_scorecards = map scorecardFor (map (\<lambda>v. the (validAgent v)) rawIds),
          br_status = Running, br_winnerAgentId = None, br_resolveTxHash = None\<rparr> emptyStore"
    by blast
  then have made: "map br_agentIds
      (battles (snd (postBattle False ''b7'' 7 threeAgentsBody emptyStore))) = [[Safe, Fast, Cheap]]"
    by (auto simp: threeAgentsBody_def validAgent_def agentOfString_def addBattle_def
        emptyStore_def MAX_BATTLES_def Let_def)
  have short: "postBattle False ''b7'' 7 (threeAgentsBody\<lparr>bb_agentIds := JArray [JString ''safe'']\<rparr>)
      emptyStore = (400, emptyStore)"
    by (rule T[THEN conjunct2, THEN conjunct2, rule_format]) simp
  have kind: "postBattle False ''b7'' 7 (threeAgentsBody\<lparr>bb_battleType := JString ''luck''\<rparr>)
      emptyStore = (400, emptyStore)"
    by (rule T[THEN conjunct2, THEN conjunct2, rule_format]) (simp add: validType_def)
  from ok made short kind show ?thesis by simp
qed

text \<open>
  C10.  The placement endpoint stores a bet only when the numeric stake
  \<open>Number(amountEth)\<close> lies between 0.001 and 10 inclusive.  A stake below 0.001
  (positive or not), a stake above 10 and an amount whose conversion is not a number
  are answered with status 400 and leave the state as it was: no bet stored, no event
  emitted, no statistics changed; so does every other answer than 201.  Hence every
  bet in a store filled through the endpoint has \<open>0.001 \<le> amount \<le> 10\<close>, and
  resolving a battle does not touch the bets.
\<close>

theorem C10_stake_bounds:
  "MIN_BET = 1 / 1000 \<and> MAX_BET = 10 \<and>
   (fst (postPlace parse uuid now body s) = 201 \<longrightarrow>
      (\<exists>amount bet. Number parse (pl_amountEth body) = Some amount \<and>
         MIN_BET \<le> amount \<and> amount \<le> MAX_BET \<and> pb_amountEth bet = amount \<and>
         paperBets (snd (postPlace parse uuid now body s)) = paperBets s @ [bet])) \<and>
   (fst (postPlace parse uuid now body s) \<noteq> 201 \<longrightarrow> snd (postPlace parse uuid now body s) = s) \<and>
   ((case Number parse (pl_amountEth body) of
       None \<Rightarrow> True
     | Some a \<Rightarrow> a < MIN_BET \<or> MAX_BET < a) \<longrightarrow>
      postPlace parse uuid now body s = (400, s)) \<and>
   ((\<forall>b \<in> set (paperBets s). stakeInRange b) \<longrightarrow>
      (\<forall>b \<in> set (paperBets (snd (postPlace parse uuid now body s))). stakeInRange b)) \<and>
   (\<forall>b \<in> set (paperBets (servePlaces parse reqs emptyPaperState)).
      MIN_BET \<le> pb_amountEth b \<and> pb_amountEth b \<le> MAX_BET) \<and>
   paperBets (snd (resolvePaperBets battleId w s)) = paperBets s"
proof -
  obtain code s' where eq: "postPlace parse uuid now body s = (code, s')"
    by (cases "postPlace parse uuid now body s")
  have ok: "fst (postPlace parse uuid now body s) = 201 \<longrightarrow>
      (\<exists>amount bet. Number parse (pl_amountEth body) = Some amount \<and>
         MIN_BET \<le> amount \<and> amount \<le> MAX_BET \<and> pb_amountEth bet = amount \<and>
         paperBets (snd (postPlace parse uuid now body s)) = paperBets s @ [bet])"
    using postPlace_cases[OF eq] by (auto simp: eq paperBets_placeBet)
  have rej: "fst (postPlace parse uuid now body s) \<noteq> 201 \<longrightarrow>
      snd (postPlace parse uuid now body s) = s"
    using postPlace_cases[OF eq] by (auto simp: eq)
  have bad: "(case Number parse (pl_amountEth body) of
       None \<Rightarrow> True
     | Some a \<Rightarrow> a < MIN_BET \<or> MAX_BET < a) \<longrightarrow>
      postPlace parse uuid now body s = (400, s)"
    using postPlace_bad_amount by blast
  have inv: "(\<forall>b \<in> set (paperBets s). stakeInRange b) \<longrightarrow>
      (\<forall>b \<in> set (paperBets (snd (postPlace parse uuid now body s))). stakeInRange b)"
    using postPlace_keeps_range by blast
  have "\<forall>b \<in> set (paperBets (servePlaces parse reqs emptyPaperState)). stakeInRange b"
    by (rule servePlaces_keeps_range) (simp add: emptyPaperState_def)
  then have run: "\<forall>b \<in> set (paperBets (servePlaces parse reqs emptyPaperState)).
      MIN_BET \<le> pb_amountEth b \<and> pb_amountEth b \<le> MAX_BET"
    by (simp add: stakeInRange_def)
  show ?thesis
    using ok rej bad inv run
    by (simp add: MIN_BET_def MAX_BET_def paperBets_resolvePaperBets)
qed

theorem C10_stake_bounds_witness:
  "fst (postPlace noParse ''u1'' 1 (placeRequest (JNumber (1 / 2))) emptyPaperState) = 201 \<and>
   map pb_amountEth
     (paperBets (snd (postPlace noParse ''u1'' 1 (placeRequest (JNumber (1 / 2))) emptyPaperState)))
     = [1 / 2] \<and>
   postPlace noParse ''u1'' 1 (placeRequest (JNumber (5 / 10000))) emptyPaperState
     = (400, emptyPaperState) \<and>
   postPlace noParse ''u1'' 1 (placeRequest (JNumber (21 / 2))) emptyPaperState
     = (400, emptyPaperState) \<and>
   postPlace noParse ''u1'' 1 (placeRequest (JString ''much'')) emptyPaperState
     = (400, emptyPaperState)"
proof -
  let ?ok = "postPlace noParse ''u1'' 1 (placeRequest (JNumber (1 / 2))) emptyPaperState"
  have code: "fst ?ok = 201"
    by (simp add: postPlace_def placeRequest_def Number_def validAgent_def agentOfString_def
        trim_def isWhiteSpace_def MIN_BET_def MAX_BET_def getBetsForBattle_def
        emptyPaperState_def)
  note T = C10_stake_bounds[of noParse "''u1''" 1 _ emptyPaperState "[]" "''b1''" Safe]
  note accepted = T[THEN conjunct2, THEN conjunct2, THEN conjunct1, rule_format]
  note refused = T[THEN conjunct2, THEN conjunct2, THEN conjunct2, THEN conjunct2,
      THEN conjunct1, rule_format]
  from accepted[of "placeRequest (JNumber (1 / 2))", OF code]
  obtain amount bet where
    "Number noParse (pl_amountEth (placeRequest (JNumber (1 / 2)))) = Some amount"
    "pb_amountEth bet = amount" "paperBets (snd ?ok) = paperBets emptyPaperState @ [bet]"
    by blast
  then have stored: "map pb_amountEth (paperBets (snd ?ok)) = [1 / 2]"
    by (simp add: Number_def placeRequest_def emptyPaperState_def)
  have low: "postPlace noParse ''u1'' 1 (placeRequest (JNumber (5 / 10000))) emptyPaperState
     = (400, emptyPaperState)"
    by (rule refused) (simp add: Number_def placeRequest_def MIN_BET_def)
  have high: "postPlace noParse ''u1'' 1 (placeRequest (JNumber (21 / 2))) emptyPaperState
     = (400, emptyPaperState)"
    by (rule refused) (simp add: Number_def placeRequest_def MAX_BET_def)
  have nan: "postPlace noParse ''u1'' 1 (placeRequest (JString ''much'')) emptyPaperState
     = (400, emptyPaperState)"
    by (rule refused) (simp add: Number_def placeRequest_def noParse_def)
  from code stored low high nan show ?thesis by simp
qed

end
